theory Spec2Isabelle
  imports Complex_Main
begin

section \<open>Data model of the session page (MainSession)\<close>

text \<open>
  The React component \<^verbatim>\<open>MainSession\<close> is embedded as explicit state passing.
  Instants (\<^verbatim>\<open>Date\<close> objects, \<^verbatim>\<open>Date.now()\<close>) are integers, the milliseconds since
  the epoch; JavaScript numbers that count things are integers as well, and the number
  \<^verbatim>\<open>Math.random()\<close> returns is a double.  All clock readings taken in one synchronous
  run of a handler are one instant.
\<close>

datatype role = User | Assistant

datatype session_type = Morning | Evening

text \<open>A thrown JavaScript exception or a rejected promise.\<close>

datatype error = Error string

record message =
  msg_id :: string
  content :: string
  role :: role
  timestamp :: int

record session_limits =
  morningCompleted :: bool
  eveningCompleted :: bool
  messagesUsed :: int
  maxMessages :: int
  lastMorningSession :: "int option"
  lastEveningSession :: "int option"

text \<open>\<^verbatim>\<open>InsightCard\<close>; a field that may be \<^verbatim>\<open>undefined\<close> is an option.\<close>

record insight_card =
  ic_id :: string
  ic_quote :: "string option"
  ic_type :: session_type
  ic_sessionId :: string
  ic_createdAt :: int
  ic_sceneType :: string
  ic_videoStillUrl :: "string option"

text \<open>\<^verbatim>\<open>ArchivedChatSession\<close>.\<close>

record archived_session =
  as_id :: string
  as_type :: session_type
  as_messages :: "message list"
  as_createdAt :: int
  as_sceneType :: string
  as_messageCount :: nat
  as_duration :: int
  as_insightCardId :: "string option"

text \<open>
  What a storage key holds.  The serialised text is not modelled: a value is the datum
  the controller wrote, and \<open>StartTime t\<close> stands for the ISO string of the instant \<open>t\<close>.
\<close>

datatype stored =
    StartTime int
  | Limits session_limits
  | Messages "message list"
  | Insights "insight_card list"
  | Sessions "archived_session list"
  | Null

datatype scope = Durable | Ephemeral

text \<open>
  Everything a handler does to the outside: a write to \<^verbatim>\<open>localStorage\<close> (\<open>Durable\<close>)
  or \<^verbatim>\<open>sessionStorage\<close> (\<open>Ephemeral\<close>), a call of the remote chat service
  (new message, session type, conversation history, profile name), a call of the remote
  insight service.
\<close>

datatype effect =
    StorageWrite scope string stored
  | ChatRequest string session_type "(role \<times> string) list" "string option"
  | InsightRequest "message list" session_type

text \<open>The \<^verbatim>\<open>useState\<close> cells of the component.\<close>

record state =
  messages :: "message list"
  isLoading :: bool
  insightCard :: "insight_card option"
  sessionStartTime :: "int option"
  currentScene :: string
  videoEnabled :: bool
  userMessagesSinceLastInsight :: int
  showGenerateInsightButton :: bool
  isGeneratingInsight :: bool
  showControls :: bool
  sessionLimits :: session_limits

text \<open>The component's state together with the two browser stores and the log of effects.\<close>

record world = state +
  localStorage :: "string \<Rightarrow> stored option"
  sessionStorage :: "string \<Rightarrow> stored option"
  effects :: "effect list"

text \<open>
  What one render reads from outside the component: \<^verbatim>\<open>useAuth()\<close> (\<open>user\<close> is the
  signed-in account or \<^verbatim>\<open>null\<close>, \<open>is_pro\<close> is \<^verbatim>\<open>profile?.is_pro === true\<close>), and the
  results of the helpers of \<^verbatim>\<open>utils/timeUtils\<close>, which are not part of the sources and
  are taken as parameters: \<^verbatim>\<open>getTimeOfDay(profile?.name)\<close>, \<^verbatim>\<open>getSessionTimeLimit\<close> (minutes),
  \<^verbatim>\<open>hasCompletedTodaysSession\<close>; \<open>render_time\<close> is the clock read during the render.
\<close>

record time_of_day =
  period :: string
  greeting :: string
  shouldAutoStart :: bool

record render =
  user :: "string option"
  is_pro :: bool
  profile_name :: "string option"
  isGuest :: bool
  timeOfDay :: time_of_day
  sessionTimeLimit :: int
  hasCompletedTodaysSession :: "int option \<Rightarrow> bool"
  render_time :: int

section \<open>Helpers\<close>

text \<open>\<^verbatim>\<open>Number.prototype.toString()\<close> on an integer: its decimal digits.\<close>

function digits :: "nat \<Rightarrow> string" where
  "digits n = (if n < 10 then [char_of (48 + n)] else digits (n div 10) @ [char_of (48 + n mod 10)])"
  by pat_completeness auto
termination
  by (relation "measure (\<lambda>n. n)") auto

declare digits.simps [simp del]

definition toString :: "int \<Rightarrow> string" where
  "toString i = (if i < 0 then CHR ''-'' # digits (nat (- i)) else digits (nat i))"

text \<open>
  \<^verbatim>\<open>Math.round((end - start) / (1000 * 60))\<close>: \<^verbatim>\<open>Math.round x\<close> is \<open>\<lfloor>x + 1/2\<rfloor>\<close>, and
  \<open>div\<close> on \<open>int\<close> rounds down.
\<close>

definition roundMinutes :: "int \<Rightarrow> int \<Rightarrow> int" where
  "roundMinutes start finish = (2 * (finish - start) + 60000) div 120000"

text \<open>\<^verbatim>\<open>const sessionType = timeOfDay.period === 'morning' ? 'morning' : 'evening'\<close>\<close>

definition sessionType :: "render \<Rightarrow> session_type" where
  "sessionType r = (if period (timeOfDay r) = ''morning'' then Morning else Evening)"

definition hasCompletedBothToday :: "render \<Rightarrow> world \<Rightarrow> bool" where
  "hasCompletedBothToday r w =
     (if user r \<noteq> None
      then hasCompletedTodaysSession r (lastMorningSession (sessionLimits w)) \<and>
           hasCompletedTodaysSession r (lastEveningSession (sessionLimits w))
      else False)"

definition isSessionExpired :: "render \<Rightarrow> world \<Rightarrow> bool" where
  "isSessionExpired r w =
     (\<not> is_pro r \<and>
      (case sessionStartTime w of
         None \<Rightarrow> False
       | Some t \<Rightarrow> render_time r - t > sessionTimeLimit r * 60 * 1000))"

section \<open>The browser stores and the storage adapter\<close>

text \<open>
  \<^verbatim>\<open>localStorage.setItem\<close> and \<^verbatim>\<open>sessionStorage.setItem\<close>: the value is stored under the
  key, and the write is logged.
\<close>

definition localStorage_setItem :: "string \<Rightarrow> stored \<Rightarrow> world \<Rightarrow> world" where
  "localStorage_setItem key v w =
     w\<lparr>localStorage := (localStorage w)(key \<mapsto> v),
       effects := effects w @ [StorageWrite Durable key v]\<rparr>"

definition sessionStorage_setItem :: "string \<Rightarrow> stored \<Rightarrow> world \<Rightarrow> world" where
  "sessionStorage_setItem key v w =
     w\<lparr>sessionStorage := (sessionStorage w)(key \<mapsto> v),
       effects := effects w @ [StorageWrite Ephemeral key v]\<rparr>"

text \<open>
  Modelled from the spec: \<^verbatim>\<open>getStorageItem\<close>, \<^verbatim>\<open>setStorageItem\<close>, \<^verbatim>\<open>getSessionStorageItem\<close>
  and \<^verbatim>\<open>setSessionStorageItem\<close> of \<^verbatim>\<open>utils/storageUtils\<close>, which are not part of the
  sources.  By the spec a read returns the stored value, and the caller's default when
  the key is absent or its content does not deserialise to the expected shape; a write
  stores the value; neither raises.  A read below returns what the key holds, and the
  default is applied where the value is used (\<open>get_sessions\<close>, \<open>get_insights\<close>,
  \<open>restoreSessionLimits\<close>).
\<close>

definition getStorageItem :: "world \<Rightarrow> string \<Rightarrow> stored option" where
  "getStorageItem w key = localStorage w key"

definition setStorageItem :: "string \<Rightarrow> stored \<Rightarrow> world \<Rightarrow> world" where
  "setStorageItem key v w = localStorage_setItem key v w"

definition getSessionStorageItem :: "world \<Rightarrow> string \<Rightarrow> stored option" where
  "getSessionStorageItem w key = sessionStorage w key"

definition setSessionStorageItem :: "string \<Rightarrow> stored \<Rightarrow> world \<Rightarrow> world" where
  "setSessionStorageItem key v w = sessionStorage_setItem key v w"

declare getStorageItem_def [simp] setStorageItem_def [simp]
  getSessionStorageItem_def [simp] setSessionStorageItem_def [simp]

text \<open>
  The component's \<^verbatim>\<open>storage\<close> object: \<^verbatim>\<open>localStorage\<close> for a signed-in user,
  \<^verbatim>\<open>sessionStorage\<close> otherwise.
\<close>

definition storage_get :: "render \<Rightarrow> world \<Rightarrow> string \<Rightarrow> stored option" where
  "storage_get r w key =
     (if user r \<noteq> None then getStorageItem w key else getSessionStorageItem w key)"

definition storage_set :: "render \<Rightarrow> string \<Rightarrow> stored \<Rightarrow> world \<Rightarrow> world" where
  "storage_set r key v w =
     (if user r \<noteq> None then setStorageItem key v w else setSessionStorageItem key v w)"

text \<open>\<^verbatim>\<open>storage.get('komorebi-chat-sessions', [])\<close>\<close>

definition get_sessions :: "render \<Rightarrow> world \<Rightarrow> archived_session list" where
  "get_sessions r w =
     (case storage_get r w ''komorebi-chat-sessions'' of Some (Sessions xs) \<Rightarrow> xs | _ \<Rightarrow> [])"

text \<open>\<^verbatim>\<open>storage.get('insight-cards', [])\<close>\<close>

definition get_insights :: "render \<Rightarrow> world \<Rightarrow> insight_card list" where
  "get_insights r w =
     (case storage_get r w ''insight-cards'' of Some (Insights xs) \<Rightarrow> xs | _ \<Rightarrow> [])"

definition saveSessionLimits :: "render \<Rightarrow> session_limits \<Rightarrow> world \<Rightarrow> world" where
  "saveSessionLimits r limits w =
     (let w1 = w\<lparr>sessionLimits := limits\<rparr>
      in if user r \<noteq> None \<or> isGuest r then storage_set r ''session-limits'' (Limits limits) w1
         else w1)"

section \<open>Effects run after a render\<close>

text \<open>
  The block of the mount effect that restores the limits.  (The effect's other blocks
  restore the video flag, the scene, the start time and the transcript; they do not
  touch the limits.)  The stored record's \<^verbatim>\<open>maxMessages\<close> is replaced by the tier's.
\<close>

definition restoreSessionLimits :: "render \<Rightarrow> world \<Rightarrow> world" where
  "restoreSessionLimits r w =
     (if user r \<noteq> None \<or> isGuest r
      then (case storage_get r w ''session-limits'' of
              Some (Limits parsed) \<Rightarrow>
                w\<lparr>sessionLimits := parsed\<lparr>maxMessages := (if is_pro r then 999 else 4)\<rparr>\<rparr>
            | _ \<Rightarrow> w)
      else w\<lparr>sessionLimits :=
               \<lparr>morningCompleted = False, eveningCompleted = False, messagesUsed = 0,
                maxMessages = 4, lastMorningSession = None, lastEveningSession = None\<rparr>\<rparr>)"

text \<open>The effect on \<open>messages\<close>: a transcript that is not empty is saved.\<close>

definition saveMessagesEffect :: "render \<Rightarrow> world \<Rightarrow> world" where
  "saveMessagesEffect r w =
     (if length (messages w) > 0
      then storage_set r ''current-session-messages'' (Messages (messages w)) w
      else w)"

section \<open>Sending a message\<close>

text \<open>
  What one call of \<^verbatim>\<open>handleSendMessage\<close> reads from outside: the clock before the remote
  call and after it, and the outcome of \<^verbatim>\<open>aiChatService.sendMessage\<close> (the reply's
  \<^verbatim>\<open>message\<close>, or the exception).
\<close>

record send_env =
  send_now :: int
  reply_now :: int
  chat_response :: "error + string"

definition apology :: string where
  "apology = ''I'm having trouble connecting right now. Let's try again in a moment.''"

text \<open>The guard on the first line of \<^verbatim>\<open>handleSendMessage\<close>.\<close>

definition send_blocked :: "render \<Rightarrow> world \<Rightarrow> bool" where
  "send_blocked r w =
     (isLoading w \<or>
      (\<not> is_pro r \<and> messagesUsed (sessionLimits w) \<ge> maxMessages (sessionLimits w)) \<or>
      isSessionExpired r w)"

text \<open>
  The synchronous part of \<^verbatim>\<open>handleSendMessage\<close>, up to and including the call of the
  remote service.  The conversation history is built from the \<open>messages\<close> of the render
  the handler belongs to.
\<close>

definition send_begin :: "render \<Rightarrow> send_env \<Rightarrow> string \<Rightarrow> world \<Rightarrow> world" where
  "send_begin r e text w =
     (let w1 = (if sessionStartTime w = None
                then storage_set r ''session-start-time'' (StartTime (send_now e))
                       (w\<lparr>sessionStartTime := Some (send_now e)\<rparr>)
                else w);
          userMessage = \<lparr>msg_id = toString (send_now e), content = text, role = User,
                          timestamp = send_now e\<rparr>;
          w2 = w1\<lparr>messages := messages w1 @ [userMessage], isLoading := True\<rparr>;
          newMessagesUsed = messagesUsed (sessionLimits w) + 1;
          newUserMessagesSinceLastInsight = userMessagesSinceLastInsight w + 1;
          w3 = w2\<lparr>userMessagesSinceLastInsight := newUserMessagesSinceLastInsight\<rparr>;
          w4 = saveSessionLimits r ((sessionLimits w)\<lparr>messagesUsed := newMessagesUsed\<rparr>) w3;
          w5 = (if newUserMessagesSinceLastInsight mod 5 = 0 \<and> newUserMessagesSinceLastInsight > 0
                then w4\<lparr>showGenerateInsightButton := True\<rparr> else w4);
          conversationHistory =
            map (\<lambda>m. (role m, content m)) (filter (\<lambda>m. msg_id m \<noteq> ''greeting'') (messages w))
      in w5\<lparr>effects := effects w5 @
                [ChatRequest text (sessionType r) conversationHistory (profile_name r)]\<rparr>)"

text \<open>The continuation after the \<^verbatim>\<open>await\<close>: the \<^verbatim>\<open>try\<close> body's rest, \<^verbatim>\<open>catch\<close> and \<^verbatim>\<open>finally\<close>.\<close>

definition send_finish :: "send_env \<Rightarrow> world \<Rightarrow> world" where
  "send_finish e w =
     (case chat_response e of
        Inr reply \<Rightarrow>
          w\<lparr>messages := messages w @
                [\<lparr>msg_id = toString (reply_now e + 1), content = reply, role = Assistant,
                  timestamp = reply_now e\<rparr>],
            isLoading := False\<rparr>
      | Inl err \<Rightarrow>
          w\<lparr>messages := messages w @
                [\<lparr>msg_id = toString (reply_now e + 1), content = apology, role = Assistant,
                  timestamp = reply_now e\<rparr>],
            isLoading := False\<rparr>)"

definition handleSendMessage :: "render \<Rightarrow> send_env \<Rightarrow> string \<Rightarrow> world \<Rightarrow> world" where
  "handleSendMessage r e text w =
     (if send_blocked r w then w else send_finish e (send_begin r e text w))"

section \<open>Archiving and starting a new session\<close>

text \<open>
  \<^verbatim>\<open>if (updatedSessions.length > 50) updatedSessions.splice(0, updatedSessions.length - 50)\<close>
\<close>

definition keep_recent :: "'a list \<Rightarrow> 'a list" where
  "keep_recent xs = (if length xs > 50 then drop (length xs - 50) xs else xs)"

text \<open>The \<^verbatim>\<open>ArchivedChatSession\<close> object both archival paths build.\<close>

definition archived_of ::
  "render \<Rightarrow> world \<Rightarrow> int \<Rightarrow> string \<Rightarrow> string option \<Rightarrow> archived_session" where
  "archived_of r w now sid insightId =
     \<lparr>as_id = sid,
      as_type = sessionType r,
      as_messages = filter (\<lambda>m. msg_id m \<noteq> ''greeting'') (messages w),
      as_createdAt = (case sessionStartTime w of Some t \<Rightarrow> t | None \<Rightarrow> now),
      as_sceneType = currentScene w,
      as_messageCount = length (filter (\<lambda>m. role m = User) (messages w)),
      as_duration = (case sessionStartTime w of Some t \<Rightarrow> roundMinutes t now | None \<Rightarrow> 0),
      as_insightCardId = insightId\<rparr>"

text \<open>The block that appends to the stored list, the same in both paths.\<close>

definition save_archived :: "render \<Rightarrow> archived_session \<Rightarrow> world \<Rightarrow> world" where
  "save_archived r a w =
     (if user r \<noteq> None \<or> isGuest r
      then storage_set r ''komorebi-chat-sessions'' (Sessions (keep_recent (get_sessions r w @ [a]))) w
      else w)"

definition archiveCurrentSession :: "render \<Rightarrow> int \<Rightarrow> string \<Rightarrow> string option \<Rightarrow> world \<Rightarrow> world" where
  "archiveCurrentSession r now sid insightId w =
     (if user r = None \<or> length (messages w) \<le> 1 then w
      else save_archived r (archived_of r w now sid insightId) w)"

text \<open>
  \<^verbatim>\<open>handleNewSession\<close>.  The last \<^verbatim>\<open>saveSessionLimits\<close> spreads the \<open>sessionLimits\<close> of the
  render the handler belongs to, as the source does.
\<close>

definition handleNewSession :: "render \<Rightarrow> int \<Rightarrow> world \<Rightarrow> world" where
  "handleNewSession r now w =
     (let w1 = (if length (messages w) > 1
                then let archivedSession =
                           archived_of r w now (toString now) (map_option ic_id (insightCard w));
                         wa = save_archived r archivedSession w;
                         updatedLimits =
                           (if sessionType r = Morning
                            then (sessionLimits w)\<lparr>messagesUsed := 0, lastMorningSession := Some now\<rparr>
                            else (sessionLimits w)\<lparr>messagesUsed := 0, lastEveningSession := Some now\<rparr>)
                     in saveSessionLimits r updatedLimits wa
                else w);
          greetingMessage = \<lparr>msg_id = ''greeting'', content = greeting (timeOfDay r),
                              role = Assistant, timestamp = now\<rparr>;
          w2 = w1\<lparr>messages := [greetingMessage], insightCard := None,
                  userMessagesSinceLastInsight := 0, showGenerateInsightButton := False,
                  sessionStartTime := Some now\<rparr>;
          w3 = localStorage_setItem ''session-start-time'' (StartTime now) w2;
          w4 = storage_set r ''current-session-messages'' Null w3
      in saveSessionLimits r ((sessionLimits w)\<lparr>messagesUsed := 0\<rparr>) w4)"

section \<open>Insight generation\<close>

text \<open>
  A string is the list of the bytes of its UTF-8 encoding.  \<^verbatim>\<open>Array.prototype.join\<close> and
  \<^verbatim>\<open>String.prototype.includes\<close> are computed on the bytes: the keywords searched for
  are ASCII, and an ASCII text occurs in a string exactly when its bytes occur in the
  string's encoding.  \<^verbatim>\<open>String.prototype.toLowerCase\<close> lower-cases by the Unicode tables
  of the engine; it is not defined here but taken as a parameter (\<open>lower\<close> below, the
  field \<open>toLowerCase\<close> of \<open>insight_env\<close>), so that nothing is assumed about it.
\<close>

fun join :: "string \<Rightarrow> string list \<Rightarrow> string" where
  "join sep [] = []"
| "join sep [x] = x"
| "join sep (x # y # ys) = x @ sep @ join sep (y # ys)"

fun str_includes :: "string \<Rightarrow> string \<Rightarrow> bool" where
  "str_includes [] k = (k = [])"
| "str_includes (c # cs) k = (take (length k) (c # cs) = k \<or> str_includes cs k)"

text \<open>
  A JavaScript number is an IEEE 754 double.  The doubles that occur here are finite
  and not negative: such a double is \<open>mant * 2 ^ expo\<close> with \<open>mant < 2 ^ 53\<close> and
  \<open>expo \<ge> - 1074\<close>.  \<open>value_of\<close> is the real number a double stands for; it is used in
  statements only, the program's arithmetic below is on mantissa and exponent.
\<close>

record double =
  mant :: nat
  expo :: int

definition value_of :: "double \<Rightarrow> real" where
  "value_of d = real (mant d) * 2 powi expo d"

text \<open>What \<^verbatim>\<open>Math.random()\<close> may return: a double that is at least 0 and less than 1.\<close>

definition unit_double :: "double \<Rightarrow> bool" where
  "unit_double d =
     (mant d < 2 ^ 53 \<and> - 1074 \<le> expo d \<and>
      (mant d = 0 \<or> (expo d < 0 \<and> mant d < 2 ^ nat (- expo d))))"

text \<open>The number of binary digits of a natural number.\<close>

function bit_length :: "nat \<Rightarrow> nat" where
  "bit_length n = (if n = 0 then 0 else Suc (bit_length (n div 2)))"
  by pat_completeness auto
termination
  by (relation "measure (\<lambda>n. n)") auto

declare bit_length.simps [simp del]

text \<open>\<open>m / 2 ^ s\<close> rounded to the nearest integer, a tie to the even one.\<close>

definition round_half_even :: "nat \<Rightarrow> nat \<Rightarrow> nat" where
  "round_half_even m s =
     (let q = m div 2 ^ s; rest = 2 * (m mod 2 ^ s)
      in if rest < 2 ^ s then q
         else if rest > 2 ^ s then q + 1
         else if even q then q else q + 1)"

text \<open>
  \<^verbatim>\<open>Math.random() * xs.length\<close>: the exact product \<open>mant * n * 2 ^ expo\<close> rounded to 53
  significant bits, to nearest and ties to even, as IEEE 754 multiplication does (an
  array length is below \<open>2 ^ 32\<close> and so a double itself; the product of a double below
  1 with it neither overflows nor, when digits are dropped, is subnormal).
\<close>

definition times_length :: "double \<Rightarrow> nat \<Rightarrow> double" where
  "times_length d n =
     (let m = mant d * n; s = bit_length m - 53
      in \<lparr>mant = round_half_even m s, expo = expo d + int s\<rparr>)"

text \<open>\<^verbatim>\<open>Math.floor\<close> of such a double.\<close>

definition floor_double :: "double \<Rightarrow> int" where
  "floor_double d =
     (if 0 \<le> expo d then int (mant d * 2 ^ nat (expo d))
      else int (mant d div 2 ^ nat (- expo d)))"

text \<open>
  \<^verbatim>\<open>xs[Math.floor(Math.random() * xs.length)]\<close>, with the value of \<^verbatim>\<open>Math.random()\<close> as a
  parameter; an index outside the array reads \<^verbatim>\<open>undefined\<close>, which is \<open>None\<close>.
\<close>

definition pick :: "double \<Rightarrow> 'a list \<Rightarrow> 'a option" where
  "pick rnd xs =
     (let i = floor_double (times_length rnd (length xs))
      in if 0 \<le> i \<and> nat i < length xs then Some (xs ! nat i) else None)"

definition simulateInsightGeneration ::
  "(string \<Rightarrow> string) \<Rightarrow> double \<Rightarrow> message list \<Rightarrow> session_type \<Rightarrow> string option" where
  "simulateInsightGeneration lower rnd sessionMessages ty =
     (let conversationText =
            lower (join '' '' (map content (filter (\<lambda>m. role m = User) sessionMessages)))
      in if str_includes conversationText ''stress'' \<or> str_includes conversationText ''anxious'' \<or>
            str_includes conversationText ''overwhelmed''
         then pick rnd
           (if ty = Morning
            then [''Your awareness of stress is the first step toward managing it with grace.'',
                  ''Even in challenging moments, you have the strength to find your center.'',
                  ''Today's difficulties are tomorrow's wisdom in disguise.'']
            else [''You've carried today's challenges with more resilience than you realize.'',
                  ''Stress reveals our capacity for growth and adaptation.'',
                  ''Every difficult day teaches us something valuable about our inner strength.''])
         else if str_includes conversationText ''grateful'' \<or> str_includes conversationText ''happy'' \<or>
            str_includes conversationText ''excited''
         then pick rnd
           (if ty = Morning
            then [''Gratitude is the foundation upon which beautiful days are built.'',
                  ''Your positive energy is a gift you give to yourself and the world.'',
                  ''Joy shared in the morning multiplies throughout the day.'']
            else [''Today's joy is a reminder of life's endless capacity for beauty.'',
                  ''Gratitude transforms ordinary moments into extraordinary memories.'',
                  ''Your appreciation for life's gifts illuminates the path forward.''])
         else if str_includes conversationText ''work'' \<or> str_includes conversationText ''career'' \<or>
            str_includes conversationText ''job''
         then pick rnd
           (if ty = Morning
            then [''Your work is an expression of your values and talents.'',
                  ''Purpose-driven action creates meaning in even the smallest tasks.'',
                  ''Today's efforts are building tomorrow's opportunities.'']
            else [''Your professional journey reflects your commitment to growth and contribution.'',
                  ''Work challenges are invitations to discover new aspects of your capabilities.'',
                  ''Balance between effort and rest creates sustainable success.''])
         else pick rnd
           (if ty = Morning
            then [''Today is a canvas waiting for your unique brushstrokes of intention.'',
                  ''Your awareness of this moment is the first step toward meaningful change.'',
                  ''Small, intentional actions create the foundation for extraordinary days.'',
                  ''You have everything within you to make today beautiful.'',
                  ''Clarity comes not from having all the answers, but from asking the right questions.'']
            else [''Growth happens in the space between challenge and reflection.'',
                  ''Every experience today was a teacher, even the difficult ones.'',
                  ''You showed up today, and that itself is worthy of celebration.'',
                  ''Tomorrow's possibilities are born from today's insights.'',
                  ''Your journey is uniquely yours, and every step has value.'']))"

text \<open>
  What one insight generation reads from outside: the outcome of
  \<^verbatim>\<open>aiChatService.generateInsightCard\<close> (the response's \<^verbatim>\<open>quote\<close>, or the exception), the
  engine's \<^verbatim>\<open>String.prototype.toLowerCase\<close>, the value of \<^verbatim>\<open>Math.random()\<close>, whether \<^verbatim>\<open>videoBackgroundRef.current\<close> is set, the outcome
  of \<^verbatim>\<open>captureFrame()\<close> in the \<^verbatim>\<open>try\<close> block and in the \<^verbatim>\<open>catch\<close> block (a component
  outside the sources: it may return a URL or \<^verbatim>\<open>null\<close>, or throw), and the clock in
  each block.
\<close>

record insight_env =
  insight_response :: "error + string"
  toLowerCase :: "string \<Rightarrow> string"
  random :: double
  video_ref :: bool
  capture_first :: "error + string option"
  capture_retry :: "error + string option"
  insight_now :: int
  retry_now :: int

definition capture :: "world \<Rightarrow> insight_env \<Rightarrow> error + string option \<Rightarrow> error + string option" where
  "capture w e outcome = (if videoEnabled w \<and> video_ref e then outcome else Inr None)"

text \<open>\<^verbatim>\<open>videoStillUrl || undefined\<close>: the empty string is falsy.\<close>

definition or_undefined :: "string option \<Rightarrow> string option" where
  "or_undefined v = (case v of None \<Rightarrow> None | Some u \<Rightarrow> if u = [] then None else Some u)"

definition hardcoded_quote :: "session_type \<Rightarrow> string" where
  "hardcoded_quote ty =
     (if ty = Morning
      then ''Every moment is a fresh beginning, and today holds infinite possibilities for growth and joy.''
      else ''Today's experiences have shaped you in beautiful ways. Rest knowing you've grown through every challenge and triumph.'')"

text \<open>
  The steps both blocks of \<^verbatim>\<open>generateInsightCard\<close> share once the quote and the still
  frame are known: build the card, show it, append it to the stored list, archive the
  session.
\<close>

definition publish_insight ::
  "render \<Rightarrow> int \<Rightarrow> string option \<Rightarrow> string option \<Rightarrow> world \<Rightarrow> world" where
  "publish_insight r now quote still w =
     (let insightId = toString now;
          sessionId = toString now;
          insight = \<lparr>ic_id = insightId, ic_quote = quote, ic_type = sessionType r,
                      ic_sessionId = sessionId, ic_createdAt = now, ic_sceneType = currentScene w,
                      ic_videoStillUrl = or_undefined still\<rparr>;
          w1 = w\<lparr>insightCard := Some insight\<rparr>;
          w2 = (if user r \<noteq> None \<or> isGuest r
                then storage_set r ''insight-cards'' (Insights (get_insights r w1 @ [insight])) w1
                else w1)
      in archiveCurrentSession r now sessionId (Some insightId) w2)"

text \<open>
  \<^verbatim>\<open>generateInsightCard\<close>: the result says whether the promise resolved (\<open>Inr ()\<close>) or
  rejected, next to the world it leaves.  A rejected remote call is caught by the inner
  \<^verbatim>\<open>try\<close> and answered by the local generator; an exception of the first block is
  answered by the second block with the hardcoded quote; when that throws too, the first
  exception is thrown again.
\<close>

definition generateInsightCard ::
  "render \<Rightarrow> insight_env \<Rightarrow> message list \<Rightarrow> world \<Rightarrow> (error + unit) \<times> world" where
  "generateInsightCard r e sessionMessages w =
     (let w0 = w\<lparr>effects := effects w @ [InsightRequest sessionMessages (sessionType r)]\<rparr>;
          quote = (case insight_response e of
                     Inr q \<Rightarrow> Some q
                   | Inl err \<Rightarrow>
                       simulateInsightGeneration (toLowerCase e) (random e) sessionMessages
                         (sessionType r))
      in case capture w0 e (capture_first e) of
           Inr still \<Rightarrow> (Inr (), publish_insight r (insight_now e) quote still w0)
         | Inl err \<Rightarrow>
             (case capture w0 e (capture_retry e) of
                Inr still \<Rightarrow>
                  (Inr (), publish_insight r (retry_now e) (Some (hardcoded_quote (sessionType r))) still w0)
              | Inl fallbackError \<Rightarrow> (Inl err, w0)))"

definition handleGenerateInsightClick :: "render \<Rightarrow> insight_env \<Rightarrow> world \<Rightarrow> world" where
  "handleGenerateInsightClick r e w =
     (let w1 = w\<lparr>isGeneratingInsight := True, showGenerateInsightButton := False\<rparr>;
          sessionMessages = filter (\<lambda>m. msg_id m \<noteq> ''greeting'') (messages w)
      in case generateInsightCard r e sessionMessages w1 of
           (Inr u, w2) \<Rightarrow> w2\<lparr>userMessagesSinceLastInsight := 0, isGeneratingInsight := False\<rparr>
         | (Inl err, w2) \<Rightarrow> w2\<lparr>showGenerateInsightButton := True, isGeneratingInsight := False\<rparr>)"

section \<open>What a render shows\<close>

datatype view = LimitReached | Expired | Active

text \<open>The two early \<^verbatim>\<open>return\<close>s of the component's body, in their order, and the main view.\<close>

definition view :: "render \<Rightarrow> world \<Rightarrow> view" where
  "view r w =
     (if user r \<noteq> None \<and> \<not> is_pro r \<and> hasCompletedBothToday r w then LimitReached
      else if sessionStartTime w \<noteq> None \<and> isSessionExpired r w then Expired
      else Active)"

section \<open>Runs of the controller\<close>

text \<open>
  The steps that change the limits or write the stores: the three handlers, the
  restoring of the limits from the store, and the saving of the transcript.
\<close>

datatype event =
    SendMessage render send_env string
  | GenerateInsight render insight_env
  | NewSession render int
  | RestoreLimits render
  | SaveMessages render

fun step :: "world \<Rightarrow> event \<Rightarrow> world" where
  "step w (SendMessage r e text) = handleSendMessage r e text w"
| "step w (GenerateInsight r e) = handleGenerateInsightClick r e w"
| "step w (NewSession r now) = handleNewSession r now w"
| "step w (RestoreLimits r) = restoreSessionLimits r w"
| "step w (SaveMessages r) = saveMessagesEffect r w"

definition run :: "world \<Rightarrow> event list \<Rightarrow> world" where
  "run w evs = foldl step w evs"

fun event_render :: "event \<Rightarrow> render" where
  "event_render (SendMessage r e text) = r"
| "event_render (GenerateInsight r e) = r"
| "event_render (NewSession r now) = r"
| "event_render (RestoreLimits r) = r"
| "event_render (SaveMessages r) = r"

text \<open>A stored value that is no limits record, or one whose \<open>messagesUsed\<close> is at most 4.\<close>

definition limits_capped :: "stored option \<Rightarrow> bool" where
  "limits_capped v = (case v of Some (Limits l) \<Rightarrow> messagesUsed l \<le> 4 | _ \<Rightarrow> True)"

definition cap_holds :: "world \<Rightarrow> bool" where
  "cap_holds w =
     (maxMessages (sessionLimits w) = 4 \<and> messagesUsed (sessionLimits w) \<le> 4 \<and>
      limits_capped (localStorage w ''session-limits'') \<and>
      limits_capped (sessionStorage w ''session-limits''))"

section \<open>The fallback policy in the spec's words\<close>

text \<open>
  The spec describes the local generator as a decision table: the conversation text is
  the lower-cased concatenation of the user-authored contents (\<open>lower\<close> is the
  lower-casing), the category is the first
  keyword group with a keyword in the text (stress, then positive affect, then work,
  else general), and the quote is picked from the pool of (category, session type).
  These definitions follow the spec; \<open>simulateInsightGeneration\<close> above follows the code.
\<close>

datatype category = Stress | Positive | Work | General

definition spec_conversation_text :: "(string \<Rightarrow> string) \<Rightarrow> message list \<Rightarrow> string" where
  "spec_conversation_text lower ms =
     lower (join '' '' (map content (filter (\<lambda>m. role m = User) ms)))"

definition spec_keywords :: "category \<Rightarrow> string list" where
  "spec_keywords c =
     (case c of
        Stress \<Rightarrow> [''stress'', ''anxious'', ''overwhelmed'']
      | Positive \<Rightarrow> [''grateful'', ''happy'', ''excited'']
      | Work \<Rightarrow> [''work'', ''career'', ''job'']
      | General \<Rightarrow> [])"

definition spec_matches :: "string \<Rightarrow> category \<Rightarrow> bool" where
  "spec_matches txt c = list_ex (str_includes txt) (spec_keywords c)"

definition spec_category :: "string \<Rightarrow> category" where
  "spec_category txt =
     (if spec_matches txt Stress then Stress
      else if spec_matches txt Positive then Positive
      else if spec_matches txt Work then Work
      else General)"

fun spec_pool :: "category \<Rightarrow> session_type \<Rightarrow> string list" where
  "spec_pool Stress Morning =
     [''Your awareness of stress is the first step toward managing it with grace.'',
      ''Even in challenging moments, you have the strength to find your center.'',
      ''Today's difficulties are tomorrow's wisdom in disguise.'']"
| "spec_pool Stress Evening =
     [''You've carried today's challenges with more resilience than you realize.'',
      ''Stress reveals our capacity for growth and adaptation.'',
      ''Every difficult day teaches us something valuable about our inner strength.'']"
| "spec_pool Positive Morning =
     [''Gratitude is the foundation upon which beautiful days are built.'',
      ''Your positive energy is a gift you give to yourself and the world.'',
      ''Joy shared in the morning multiplies throughout the day.'']"
| "spec_pool Positive Evening =
     [''Today's joy is a reminder of life's endless capacity for beauty.'',
      ''Gratitude transforms ordinary moments into extraordinary memories.'',
      ''Your appreciation for life's gifts illuminates the path forward.'']"
| "spec_pool Work Morning =
     [''Your work is an expression of your values and talents.'',
      ''Purpose-driven action creates meaning in even the smallest tasks.'',
      ''Today's efforts are building tomorrow's opportunities.'']"
| "spec_pool Work Evening =
     [''Your professional journey reflects your commitment to growth and contribution.'',
      ''Work challenges are invitations to discover new aspects of your capabilities.'',
      ''Balance between effort and rest creates sustainable success.'']"
| "spec_pool General Morning =
     [''Today is a canvas waiting for your unique brushstrokes of intention.'',
      ''Your awareness of this moment is the first step toward meaningful change.'',
      ''Small, intentional actions create the foundation for extraordinary days.'',
      ''You have everything within you to make today beautiful.'',
      ''Clarity comes not from having all the answers, but from asking the right questions.'']"
| "spec_pool General Evening =
     [''Growth happens in the space between challenge and reflection.'',
      ''Every experience today was a teacher, even the difficult ones.'',
      ''You showed up today, and that itself is worthy of celebration.'',
      ''Tomorrow's possibilities are born from today's insights.'',
      ''Your journey is uniquely yours, and every step has value.'']"

section \<open>The stored procedure \<^verbatim>\<open>complete_chat_session\<close>\<close>

text \<open>
  SQL values are options, \<open>None\<close> for \<^verbatim>\<open>NULL\<close>; a row keeps the columns the procedure
  reads or writes.  The tables' constraints and defaults are not part of the sources:
  an insert is taken to succeed, and the new row's \<^verbatim>\<open>id\<close> is a parameter of the call.
\<close>

type_synonym uuid = string

record chat_session_row =
  cs_id :: uuid
  cs_user_id :: "uuid option"
  cs_type :: "string option"
  cs_completed :: "bool option"
  cs_completed_at :: "int option"
  cs_insight_id :: "uuid option"

record insight_row =
  i_id :: uuid
  i_session_id :: "uuid option"
  i_quote :: "string option"
  i_type :: "string option"
  i_scene_type :: "string option"

record database =
  chat_sessions :: "chat_session_row list"
  insights :: "insight_row list"

text \<open>What a call reads from outside: \<^verbatim>\<open>auth.uid()\<close>, the generated id, \<^verbatim>\<open>now()\<close>.\<close>

record db_env =
  auth_uid :: "uuid option"
  generated_id :: uuid
  db_now :: int

datatype sql_error =
    Raised string
  | AmbiguousColumn string

record completion =
  success :: bool
  insight_id :: "uuid option"
  session_id :: "uuid option"

text \<open>Three-valued comparison and disjunction; \<^verbatim>\<open>IF\<close> takes its branch only on \<^verbatim>\<open>true\<close>.\<close>

definition sql_ne :: "'a option \<Rightarrow> 'a option \<Rightarrow> bool option" where
  "sql_ne a b = (case (a, b) of (Some x, Some y) \<Rightarrow> Some (x \<noteq> y) | _ \<Rightarrow> None)"

definition sql_or :: "bool option \<Rightarrow> bool option \<Rightarrow> bool option" where
  "sql_or a b =
     (if a = Some True \<or> b = Some True then Some True
      else if a = Some False \<and> b = Some False then Some False
      else None)"

definition sql_is_null :: "'a option \<Rightarrow> bool option" where
  "sql_is_null a = Some (a = None)"

text \<open>
  A name written without a qualifier in an SQL statement of a PL/pgSQL function may
  denote a column of a table in the statement's scope or a variable of the function.
  No \<^verbatim>\<open>#variable_conflict\<close> option is given, so the default applies: a name that could be
  either is an error (\<^verbatim>\<open>column reference is ambiguous\<close>), raised when the statement runs.
  The columns of \<^verbatim>\<open>chat_sessions\<close> are the ones the migration names (the added
  \<^verbatim>\<open>completed\<close>, those \<^verbatim>\<open>get_recent_chat_sessions\<close> selects, and \<^verbatim>\<open>user_id\<close>); the variables
  are the parameters and the \<^verbatim>\<open>DECLARE\<close> block.  The \<^verbatim>\<open>VALUES\<close> list of an \<^verbatim>\<open>INSERT\<close> has no
  table in scope.
\<close>

definition chat_sessions_columns :: "string list" where
  "chat_sessions_columns =
     [''id'', ''user_id'', ''type'', ''created_at'', ''completed_at'', ''completed'', ''duration'',
      ''scene_type'', ''message_count'', ''insight_id'']"

definition function_variables :: "string list" where
  "function_variables =
     [''session_id'', ''insight_quote'', ''scene_type'', ''user_id'', ''session_type'', ''insight_id'',
      ''result'']"

definition ambiguous :: "string list \<Rightarrow> string list \<Rightarrow> string option" where
  "ambiguous columns names =
     (case filter (\<lambda>n. n \<in> set columns \<and> n \<in> set function_variables) names of
        [] \<Rightarrow> None
      | n # ns \<Rightarrow> Some n)"

text \<open>
  The body, statement by statement; each statement first resolves its unqualified
  names.  An error leaves the database as it was: the call's writes are rolled back
  with the statement that called it.
\<close>

definition complete_chat_session ::
  "db_env \<Rightarrow> uuid option \<Rightarrow> string option \<Rightarrow> string option \<Rightarrow> database \<Rightarrow>
   sql_error + completion \<times> database" where
  "complete_chat_session env session_id_arg insight_quote scene_type db =
     (case ambiguous chat_sessions_columns [''session_id''] of
        Some n \<Rightarrow> Inl (AmbiguousColumn n)
      | None \<Rightarrow>
     (let row = find (\<lambda>cs. Some (cs_id cs) = session_id_arg) (chat_sessions db);
          user_id = (case row of None \<Rightarrow> None | Some cs \<Rightarrow> cs_user_id cs);
          session_type = (case row of None \<Rightarrow> None | Some cs \<Rightarrow> cs_type cs)
      in if sql_or (sql_is_null user_id) (sql_ne user_id (auth_uid env)) = Some True
         then Inl (Raised ''Session not found or not authorized'')
         else
     (case ambiguous [] [''session_id'', ''insight_quote'', ''session_type'', ''scene_type''] of
        Some n \<Rightarrow> Inl (AmbiguousColumn n)
      | None \<Rightarrow>
     (let new_insight = \<lparr>i_id = generated_id env, i_session_id = session_id_arg,
                          i_quote = insight_quote, i_type = session_type,
                          i_scene_type = scene_type\<rparr>;
          insight_id_var = Some (generated_id env);
          db1 = db\<lparr>insights := insights db @ [new_insight]\<rparr>
      in case ambiguous chat_sessions_columns [''insight_id'', ''id'', ''session_id''] of
           Some n \<Rightarrow> Inl (AmbiguousColumn n)
         | None \<Rightarrow>
             (let db2 = db1\<lparr>chat_sessions :=
                          map (\<lambda>cs. if Some (cs_id cs) = session_id_arg
                                     then cs\<lparr>cs_completed := Some True,
                                             cs_completed_at := Some (db_now env),
                                             cs_insight_id := insight_id_var\<rparr>
                                     else cs)
                            (chat_sessions db1)\<rparr>
              in Inr (\<lparr>success = True, insight_id = insight_id_var,
                        session_id = session_id_arg\<rparr>, db2))))))"

section \<open>Example inputs\<close>

text \<open>Concrete renders, worlds and environments on which the theorems below are instantiated.\<close>

definition free_user :: render where
  "free_user =
     \<lparr>user = Some ''u1'', is_pro = False, profile_name = Some ''Ana'', isGuest = False,
      timeOfDay = \<lparr>period = ''morning'', greeting = ''Good morning'', shouldAutoStart = False\<rparr>,
      sessionTimeLimit = 15,
      hasCompletedTodaysSession = (\<lambda>t. case t of None \<Rightarrow> False | Some x \<Rightarrow> 0 \<le> x),
      render_time = 3000\<rparr>"

definition guest_user :: render where
  "guest_user = free_user\<lparr>user := None, isGuest := True\<rparr>"

definition anonymous_user :: render where
  "anonymous_user = free_user\<lparr>user := None, isGuest := False\<rparr>"

definition greeting_message :: message where
  "greeting_message =
     \<lparr>msg_id = ''greeting'', content = ''Good morning'', role = Assistant, timestamp = 0\<rparr>"

definition fresh_world :: world where
  "fresh_world =
     \<lparr>messages = [greeting_message], isLoading = False, insightCard = None,
      sessionStartTime = None, currentScene = ''ocean'', videoEnabled = True,
      userMessagesSinceLastInsight = 0, showGenerateInsightButton = False,
      isGeneratingInsight = False, showControls = False,
      sessionLimits = \<lparr>morningCompleted = False, eveningCompleted = False, messagesUsed = 0,
                        maxMessages = 4, lastMorningSession = None, lastEveningSession = None\<rparr>,
      localStorage = Map.empty, sessionStorage = Map.empty, effects = []\<rparr>"

definition chat_ok :: send_env where
  "chat_ok = \<lparr>send_now = 2000, reply_now = 2500, chat_response = Inr ''Tell me more''\<rparr>"

definition chat_down :: send_env where
  "chat_down = \<lparr>send_now = 2000, reply_now = 2500, chat_response = Inl (Error ''network'')\<rparr>"

text \<open>A world in which the free tier's four messages are used up.\<close>

definition capped_world :: world where
  "capped_world =
     fresh_world\<lparr>sessionStartTime := Some 2000,
                 sessionLimits := (sessionLimits fresh_world)\<lparr>messagesUsed := 4\<rparr>\<rparr>"

definition late_render :: render where
  "late_render = free_user\<lparr>render_time := 2000000\<rparr>"

text \<open>A world whose limits record both daily sessions as completed.\<close>

definition both_done_world :: world where
  "both_done_world =
     capped_world\<lparr>sessionLimits :=
        (sessionLimits capped_world)\<lparr>lastMorningSession := Some 100, lastEveningSession := Some 200\<rparr>\<rparr>"

text \<open>
  The outcome of the generation a click on the insight button starts: whether
  \<^verbatim>\<open>await generateInsightCard(sessionMessages)\<close> in \<^verbatim>\<open>handleGenerateInsightClick\<close> resolves
  or throws.
\<close>

definition insight_outcome :: "render \<Rightarrow> insight_env \<Rightarrow> world \<Rightarrow> error + unit" where
  "insight_outcome r e w =
     fst (generateInsightCard r e (filter (\<lambda>m. msg_id m \<noteq> ''greeting'') (messages w))
            (w\<lparr>isGeneratingInsight := True, showGenerateInsightButton := False\<rparr>))"

definition pro_user :: render where
  "pro_user = free_user\<lparr>is_pro := True\<rparr>"

text \<open>A paid session in which four user messages were sent since the last insight.\<close>

definition four_sent_world :: world where
  "four_sent_world =
     fresh_world\<lparr>sessionStartTime := Some 2000, userMessagesSinceLastInsight := 4,
                 sessionLimits := (sessionLimits fresh_world)\<lparr>messagesUsed := 4, maxMessages := 999\<rparr>\<rparr>"

text \<open>The same session one message later, the insight button on offer.\<close>

definition offered_world :: world where
  "offered_world =
     four_sent_world\<lparr>userMessagesSinceLastInsight := 5, showGenerateInsightButton := True\<rparr>"

text \<open>An insight generation whose remote call answers, and one whose frame captures both throw.\<close>

text \<open>
  A lower-casing for the examples: the letters \<open>A\<close> to \<open>Z\<close> are lowered and every
  other byte is kept, which is what \<^verbatim>\<open>String.prototype.toLowerCase\<close> computes on text made
  of ASCII characters.
\<close>

definition lower_char :: "char \<Rightarrow> char" where
  "lower_char c =
     (if 65 \<le> (of_char c :: nat) \<and> (of_char c :: nat) \<le> 90 then char_of ((of_char c :: nat) + 32)
      else c)"

definition ascii_lower :: "string \<Rightarrow> string" where
  "ascii_lower s = map lower_char s"

text \<open>
  Three values of \<^verbatim>\<open>Math.random()\<close>: \<open>0.5\<close>, the double written \<open>0.6\<close> and the double
  written \<open>0.3333333333333333\<close>.
\<close>

definition half :: double where
  "half = \<lparr>mant = 1, expo = - 1\<rparr>"

definition six_tenths :: double where
  "six_tenths = \<lparr>mant = 5404319552844595, expo = - 53\<rparr>"

definition one_third :: double where
  "one_third = \<lparr>mant = 6004799503160661, expo = - 54\<rparr>"

definition insight_ok :: insight_env where
  "insight_ok =
     \<lparr>insight_response = Inr ''Breathe.'', toLowerCase = ascii_lower, random = half,
      video_ref = True,
      capture_first = Inr (Some ''data:image/png;base64,AAAA''), capture_retry = Inr None,
      insight_now = 4000, retry_now = 4500\<rparr>"

definition insight_broken :: insight_env where
  "insight_broken =
     insight_ok\<lparr>capture_first := Inl (Error ''SecurityError''),
                capture_retry := Inl (Error ''SecurityError'')\<rparr>"

text \<open>The effects a handler added, and whether an effect writes a given storage key.\<close>

definition new_effects :: "world \<Rightarrow> world \<Rightarrow> effect list" where
  "new_effects w w' = drop (length (effects w)) (effects w')"

fun writes_key :: "string \<Rightarrow> effect \<Rightarrow> bool" where
  "writes_key k (StorageWrite sc k' v) = (k' = k)"
| "writes_key k (ChatRequest body ty history name) = False"
| "writes_key k (InsightRequest ms ty) = False"

text \<open>A session with one exchange after the greeting.\<close>

definition talked_world :: world where
  "talked_world =
     fresh_world\<lparr>messages :=
        [greeting_message,
         \<lparr>msg_id = ''2000'', content = ''hello'', role = User, timestamp = 2000\<rparr>,
         \<lparr>msg_id = ''2501'', content = ''Tell me more'', role = Assistant, timestamp = 2500\<rparr>],
      sessionStartTime := Some 2000, userMessagesSinceLastInsight := 1,
      sessionLimits := (sessionLimits fresh_world)\<lparr>messagesUsed := 1\<rparr>\<rparr>"

text \<open>
  Two archived sessions, and a signed-in user's store that holds fifty: first one that
  was created at instant 900, then forty-nine that were created at instant 100.
\<close>

definition archived_late :: archived_session where
  "archived_late =
     \<lparr>as_id = ''950'', as_type = Evening, as_messages = [], as_createdAt = 900,
      as_sceneType = ''forest'', as_messageCount = 0, as_duration = 0, as_insightCardId = None\<rparr>"

definition archived_early :: archived_session where
  "archived_early =
     \<lparr>as_id = ''960'', as_type = Morning, as_messages = [], as_createdAt = 100,
      as_sceneType = ''ocean'', as_messageCount = 0, as_duration = 0, as_insightCardId = None\<rparr>"

definition full_archive_world :: world where
  "full_archive_world =
     talked_world\<lparr>localStorage :=
        [''komorebi-chat-sessions'' \<mapsto> Sessions (archived_late # replicate 49 archived_early)]\<rparr>"

text \<open>A transcript whose user messages name stress and work, in capitals.\<close>

definition stressed_messages :: "message list" where
  "stressed_messages =
     [\<lparr>msg_id = ''2000'', content = ''My WORK is piling up'', role = User, timestamp = 2000\<rparr>,
      \<lparr>msg_id = ''2501'', content = ''That sounds happy'', role = Assistant, timestamp = 2500\<rparr>,
      \<lparr>msg_id = ''3000'', content = ''I feel Stressed'', role = User, timestamp = 3000\<rparr>]"

definition insight_offline :: insight_env where
  "insight_offline = insight_ok\<lparr>insight_response := Inl (Error ''network'')\<rparr>"

text \<open>A database with one open session of the user \<open>alice\<close>, and three callers.\<close>

definition example_db :: database where
  "example_db =
     \<lparr>chat_sessions =
        [\<lparr>cs_id = ''s1'', cs_user_id = Some ''alice'', cs_type = Some ''morning'',
          cs_completed = Some False, cs_completed_at = None, cs_insight_id = None\<rparr>],
      insights = []\<rparr>"

definition as_alice :: db_env where
  "as_alice = \<lparr>auth_uid = Some ''alice'', generated_id = ''i1'', db_now = 7000\<rparr>"

definition as_bob :: db_env where
  "as_bob = as_alice\<lparr>auth_uid := Some ''bob''\<rparr>"

text \<open>A caller for which \<^verbatim>\<open>auth.uid()\<close> is \<^verbatim>\<open>NULL\<close>: no signed-in user stands behind the request.\<close>

definition as_nobody :: db_env where
  "as_nobody = as_alice\<lparr>auth_uid := None\<rparr>"

section \<open>What the storage operations leave alone\<close>

lemma storage_set_state [simp]:
  "messages (storage_set r k v w) = messages w"
  "isLoading (storage_set r k v w) = isLoading w"
  "insightCard (storage_set r k v w) = insightCard w"
  "sessionStartTime (storage_set r k v w) = sessionStartTime w"
  "currentScene (storage_set r k v w) = currentScene w"
  "videoEnabled (storage_set r k v w) = videoEnabled w"
  "userMessagesSinceLastInsight (storage_set r k v w) = userMessagesSinceLastInsight w"
  "showGenerateInsightButton (storage_set r k v w) = showGenerateInsightButton w"
  "isGeneratingInsight (storage_set r k v w) = isGeneratingInsight w"
  "sessionLimits (storage_set r k v w) = sessionLimits w"
  by (simp_all add: storage_set_def localStorage_setItem_def sessionStorage_setItem_def)

lemma save_archived_state [simp]:
  "messages (save_archived r a w) = messages w"
  "insightCard (save_archived r a w) = insightCard w"
  "sessionStartTime (save_archived r a w) = sessionStartTime w"
  "currentScene (save_archived r a w) = currentScene w"
  "userMessagesSinceLastInsight (save_archived r a w) = userMessagesSinceLastInsight w"
  "showGenerateInsightButton (save_archived r a w) = showGenerateInsightButton w"
  "sessionLimits (save_archived r a w) = sessionLimits w"
  by (simp_all add: save_archived_def)

lemma archiveCurrentSession_state [simp]:
  "messages (archiveCurrentSession r now sid iid w) = messages w"
  "insightCard (archiveCurrentSession r now sid iid w) = insightCard w"
  "sessionStartTime (archiveCurrentSession r now sid iid w) = sessionStartTime w"
  "userMessagesSinceLastInsight (archiveCurrentSession r now sid iid w) =
     userMessagesSinceLastInsight w"
  "showGenerateInsightButton (archiveCurrentSession r now sid iid w) =
     showGenerateInsightButton w"
  "sessionLimits (archiveCurrentSession r now sid iid w) = sessionLimits w"
  by (simp_all add: archiveCurrentSession_def)

lemma saveSessionLimits_state [simp]:
  "messages (saveSessionLimits r l w) = messages w"
  "insightCard (saveSessionLimits r l w) = insightCard w"
  "sessionStartTime (saveSessionLimits r l w) = sessionStartTime w"
  "userMessagesSinceLastInsight (saveSessionLimits r l w) = userMessagesSinceLastInsight w"
  "showGenerateInsightButton (saveSessionLimits r l w) = showGenerateInsightButton w"
  "isLoading (saveSessionLimits r l w) = isLoading w"
  "sessionLimits (saveSessionLimits r l w) = l"
  by (simp_all add: saveSessionLimits_def Let_def)

lemma publish_insight_state [simp]:
  "messages (publish_insight r now q st w) = messages w"
  "sessionStartTime (publish_insight r now q st w) = sessionStartTime w"
  "userMessagesSinceLastInsight (publish_insight r now q st w) = userMessagesSinceLastInsight w"
  "showGenerateInsightButton (publish_insight r now q st w) = showGenerateInsightButton w"
  "sessionLimits (publish_insight r now q st w) = sessionLimits w"
  by (simp_all add: publish_insight_def Let_def)

section \<open>Field lemmas\<close>

lemma send_finish_limits [simp]: "sessionLimits (send_finish e w) = sessionLimits w"
  by (simp add: send_finish_def split: sum.splits)

lemma send_begin_limits:
  "sessionLimits (send_begin r e body w) =
     (sessionLimits w)\<lparr>messagesUsed := messagesUsed (sessionLimits w) + 1\<rparr>"
  by (simp add: send_begin_def Let_def)

lemma send_begin_messages:
  "messages (send_begin r e body w) =
     messages w @ [\<lparr>msg_id = toString (send_now e), content = body, role = User,
                    timestamp = send_now e\<rparr>]"
  by (simp add: send_begin_def Let_def saveSessionLimits_def storage_set_def
      localStorage_setItem_def sessionStorage_setItem_def)

lemma storage_get_send_begin:
  "user r \<noteq> None \<or> isGuest r \<Longrightarrow>
   storage_get r (send_begin r e body w) ''session-limits'' =
     Some (Limits ((sessionLimits w)\<lparr>messagesUsed := messagesUsed (sessionLimits w) + 1\<rparr>))"
  by (simp add: send_begin_def Let_def storage_get_def saveSessionLimits_def storage_set_def
      localStorage_setItem_def sessionStorage_setItem_def)

lemma storage_get_send_finish [simp]: "storage_get r (send_finish e w) k = storage_get r w k"
  by (simp add: send_finish_def storage_get_def split: sum.splits)

lemma handleNewSession_limits:
  "sessionLimits (handleNewSession r now w) = (sessionLimits w)\<lparr>messagesUsed := 0\<rparr>"
  by (simp add: handleNewSession_def Let_def)

lemma generate_limits:
  "generateInsightCard r e ms w = (res, w2) \<Longrightarrow> sessionLimits w2 = sessionLimits w"
  by (auto simp: generateInsightCard_def Let_def split: sum.splits)

lemma click_limits [simp]: "sessionLimits (handleGenerateInsightClick r e w) = sessionLimits w"
  by (auto simp: handleGenerateInsightClick_def Let_def split: prod.splits sum.splits
      dest: generate_limits)

section \<open>The message cap\<close>

lemma limits_capped_simps [simp]:
  "limits_capped None"
  "limits_capped (Some (Limits l)) = (messagesUsed l \<le> 4)"
  by (simp_all add: limits_capped_def)

lemma send_stored_limits:
  "\<not> send_blocked r w \<Longrightarrow>
   localStorage (handleSendMessage r e body w) ''session-limits'' =
     (if user r \<noteq> None
      then Some (Limits ((sessionLimits w)\<lparr>messagesUsed := messagesUsed (sessionLimits w) + 1\<rparr>))
      else localStorage w ''session-limits'')"
  "\<not> send_blocked r w \<Longrightarrow>
   sessionStorage (handleSendMessage r e body w) ''session-limits'' =
     (if user r = None \<and> isGuest r
      then Some (Limits ((sessionLimits w)\<lparr>messagesUsed := messagesUsed (sessionLimits w) + 1\<rparr>))
      else sessionStorage w ''session-limits'')"
  by (auto simp: handleSendMessage_def send_finish_def send_begin_def saveSessionLimits_def
      storage_set_def localStorage_setItem_def sessionStorage_setItem_def Let_def
      split: sum.splits)

lemma new_session_stored_limits:
  "localStorage (handleNewSession r now w) ''session-limits'' =
     (if user r \<noteq> None then Some (Limits ((sessionLimits w)\<lparr>messagesUsed := 0\<rparr>))
      else localStorage w ''session-limits'')"
  "sessionStorage (handleNewSession r now w) ''session-limits'' =
     (if user r = None \<and> isGuest r then Some (Limits ((sessionLimits w)\<lparr>messagesUsed := 0\<rparr>))
      else sessionStorage w ''session-limits'')"
  by (auto simp: handleNewSession_def save_archived_def saveSessionLimits_def
      storage_set_def localStorage_setItem_def sessionStorage_setItem_def Let_def)

lemma generate_stored_limits:
  assumes "generateInsightCard r e ms w = (res, w2)"
  shows "localStorage w2 ''session-limits'' = localStorage w ''session-limits''"
    and "sessionStorage w2 ''session-limits'' = sessionStorage w ''session-limits''"
  using assms
  by (auto simp: generateInsightCard_def publish_insight_def archiveCurrentSession_def
      save_archived_def storage_set_def localStorage_setItem_def sessionStorage_setItem_def
      Let_def split: sum.splits)

lemma click_stored_limits:
  "localStorage (handleGenerateInsightClick r e w) ''session-limits'' =
     localStorage w ''session-limits''"
  "sessionStorage (handleGenerateInsightClick r e w) ''session-limits'' =
     sessionStorage w ''session-limits''"
  by (auto simp: handleGenerateInsightClick_def Let_def split: prod.splits sum.splits
      dest: generate_stored_limits)

lemma send_cap:
  assumes "\<not> is_pro r" and "cap_holds w"
  shows "cap_holds (handleSendMessage r e body w)"
proof (cases "send_blocked r w")
  case True
  then show ?thesis using assms by (simp add: handleSendMessage_def)
next
  case False
  then have "messagesUsed (sessionLimits w) < 4"
    using assms by (simp add: send_blocked_def cap_holds_def)
  moreover have "sessionLimits (handleSendMessage r e body w) =
      (sessionLimits w)\<lparr>messagesUsed := messagesUsed (sessionLimits w) + 1\<rparr>"
    using False by (simp add: handleSendMessage_def send_begin_limits)
  ultimately show ?thesis
    using assms False by (simp add: cap_holds_def send_stored_limits)
qed

lemma restore_cap:
  assumes "\<not> is_pro r" and "cap_holds w"
  shows "cap_holds (restoreSessionLimits r w)"
  using assms
  by (auto simp: cap_holds_def restoreSessionLimits_def storage_get_def limits_capped_def
      split: option.splits stored.splits)

lemma save_messages_cap: "cap_holds w \<Longrightarrow> cap_holds (saveMessagesEffect r w)"
  by (simp add: cap_holds_def saveMessagesEffect_def storage_set_def localStorage_setItem_def
      sessionStorage_setItem_def)

lemma step_cap:
  assumes "\<not> is_pro (event_render ev)" and "cap_holds w"
  shows "cap_holds (step w ev)"
proof (cases ev)
  case (SendMessage r e body)
  then show ?thesis using assms by (simp add: send_cap)
next
  case (GenerateInsight r e)
  then show ?thesis using assms by (simp add: cap_holds_def click_stored_limits)
next
  case (NewSession r now)
  then show ?thesis
    using assms by (simp add: cap_holds_def handleNewSession_limits new_session_stored_limits)
next
  case (RestoreLimits r)
  then show ?thesis using assms by (simp add: restore_cap)
next
  case (SaveMessages r)
  then show ?thesis using assms by (simp add: save_messages_cap)
qed

lemma run_cap:
  "\<forall>ev \<in> set evs. \<not> is_pro (event_render ev) \<Longrightarrow> cap_holds w \<Longrightarrow> cap_holds (run w evs)"
  unfolding run_def
proof (induction evs arbitrary: w)
  case Nil
  then show ?case by simp
next
  case (Cons ev evs)
  have "cap_holds (step w ev)"
    using Cons.prems by (intro step_cap) auto
  then show ?case using Cons.IH[of "step w ev"] Cons.prems by simp
qed

text \<open>
  Claim C1.  A send attempted while a reply is loading, or by a non-paid user whose
  \<open>messagesUsed\<close> has reached \<open>maxMessages\<close>, or while the session is expired, returns the
  world it was given: the transcript, every counter, both stores and the log of effects
  (storage writes and remote calls) are the same.  Consequently \<open>messagesUsed\<close> stays at
  most 4 along every run of non-paid renders (sends, insight generations, new sessions,
  restoring the limits from the store, saving the transcript) that starts with
  \<open>maxMessages = 4\<close>, \<open>messagesUsed \<le> 4\<close> and no stored limits above 4, as the first
  render with empty stores does.
\<close>

theorem handleSendMessage_gate:
  "(isLoading w \<or>
    (\<not> is_pro r \<and> maxMessages (sessionLimits w) \<le> messagesUsed (sessionLimits w)) \<or>
    isSessionExpired r w
      \<longrightarrow> handleSendMessage r e body w = w) \<and>
   ((\<forall>ev \<in> set evs. \<not> is_pro (event_render ev)) \<and> maxMessages (sessionLimits w0) = 4 \<and>
    messagesUsed (sessionLimits w0) \<le> 4 \<and>
    limits_capped (localStorage w0 ''session-limits'') \<and>
    limits_capped (sessionStorage w0 ''session-limits'')
      \<longrightarrow> messagesUsed (sessionLimits (run w0 evs)) \<le> 4 \<and>
           maxMessages (sessionLimits (run w0 evs)) = 4)"
proof (intro conjI impI)
  assume "isLoading w \<or>
    (\<not> is_pro r \<and> maxMessages (sessionLimits w) \<le> messagesUsed (sessionLimits w)) \<or>
    isSessionExpired r w"
  then have "send_blocked r w" by (simp add: send_blocked_def)
  then show "handleSendMessage r e body w = w" by (simp add: handleSendMessage_def)
next
  assume h: "(\<forall>ev \<in> set evs. \<not> is_pro (event_render ev)) \<and> maxMessages (sessionLimits w0) = 4 \<and>
    messagesUsed (sessionLimits w0) \<le> 4 \<and>
    limits_capped (localStorage w0 ''session-limits'') \<and>
    limits_capped (sessionStorage w0 ''session-limits'')"
  then have "cap_holds (run w0 evs)"
    using run_cap[of evs w0] by (simp add: cap_holds_def)
  then show "messagesUsed (sessionLimits (run w0 evs)) \<le> 4"
    and "maxMessages (sessionLimits (run w0 evs)) = 4"
    by (simp_all add: cap_holds_def)
qed

theorem handleSendMessage_gate_witness:
  "\<not> is_pro free_user \<and> messagesUsed (sessionLimits capped_world) = 4 \<and>
   maxMessages (sessionLimits capped_world) = 4 \<and>
   handleSendMessage free_user chat_ok ''one more'' capped_world = capped_world \<and>
   handleSendMessage free_user chat_ok ''hello'' (fresh_world\<lparr>isLoading := True\<rparr>) =
     fresh_world\<lparr>isLoading := True\<rparr> \<and>
   isSessionExpired late_render capped_world \<and>
   handleSendMessage late_render chat_ok ''hello'' capped_world = capped_world \<and>
   messagesUsed (sessionLimits (run fresh_world
      [SendMessage free_user chat_ok ''1'', SendMessage free_user chat_down ''2'',
       SaveMessages free_user, SendMessage free_user chat_ok ''3'',
       SendMessage free_user chat_ok ''4'', RestoreLimits free_user,
       SendMessage free_user chat_ok ''5'', SendMessage free_user chat_ok ''6''])) \<le> 4"
proof -
  have a: "\<not> is_pro free_user" "messagesUsed (sessionLimits capped_world) = 4"
    "maxMessages (sessionLimits capped_world) = 4" "maxMessages (sessionLimits fresh_world) = 4"
    "messagesUsed (sessionLimits fresh_world) \<le> 4"
    "limits_capped (localStorage fresh_world ''session-limits'')"
    "limits_capped (sessionStorage fresh_world ''session-limits'')"
    by (simp_all add: free_user_def capped_world_def fresh_world_def)
  have x: "isSessionExpired late_render capped_world"
    by (simp add: isSessionExpired_def late_render_def free_user_def capped_world_def
        fresh_world_def)
  have b: "handleSendMessage free_user chat_ok ''one more'' capped_world = capped_world"
    using handleSendMessage_gate[of capped_world free_user chat_ok "''one more''" "[]" fresh_world] a
    by simp
  have c: "handleSendMessage free_user chat_ok ''hello'' (fresh_world\<lparr>isLoading := True\<rparr>) =
      fresh_world\<lparr>isLoading := True\<rparr>"
    using handleSendMessage_gate[of "fresh_world\<lparr>isLoading := True\<rparr>" free_user chat_ok
        "''hello''" "[]" fresh_world]
    by simp
  have d: "handleSendMessage late_render chat_ok ''hello'' capped_world = capped_world"
    using x handleSendMessage_gate[of capped_world late_render chat_ok "''hello''" "[]" fresh_world]
    by simp
  have f: "messagesUsed (sessionLimits (run fresh_world
      [SendMessage free_user chat_ok ''1'', SendMessage free_user chat_down ''2'',
       SaveMessages free_user, SendMessage free_user chat_ok ''3'',
       SendMessage free_user chat_ok ''4'', RestoreLimits free_user,
       SendMessage free_user chat_ok ''5'', SendMessage free_user chat_ok ''6''])) \<le> 4"
    using handleSendMessage_gate[of capped_world free_user chat_ok "''one more''"
       "[SendMessage free_user chat_ok ''1'', SendMessage free_user chat_down ''2'',
       SaveMessages free_user, SendMessage free_user chat_ok ''3'',
       SendMessage free_user chat_ok ''4'', RestoreLimits free_user,
       SendMessage free_user chat_ok ''5'', SendMessage free_user chat_ok ''6'']" fresh_world] a
    by simp
  show ?thesis using a b c d f x by simp
qed

section \<open>A failing chat service\<close>

text \<open>
  Claim C5.  When a send passes the guard and the remote chat call throws, the
  transcript gains the user's message followed by exactly one assistant message, whose
  text is the fixed apology; the handler returns (its result is a world, there is no
  exceptional outcome) with \<open>isLoading\<close> reset; and \<open>messagesUsed\<close>, in the state and in the
  persisted limits of a signed-in or guest identity, keeps the increment made before the
  call.
\<close>

theorem handleSendMessage_chat_failure:
  "\<not> send_blocked r w \<and> chat_response e = Inl err \<longrightarrow>
     messages (handleSendMessage r e body w) =
       messages w @
         [\<lparr>msg_id = toString (send_now e), content = body, role = User, timestamp = send_now e\<rparr>,
          \<lparr>msg_id = toString (reply_now e + 1),
           content = ''I'm having trouble connecting right now. Let's try again in a moment.'',
           role = Assistant, timestamp = reply_now e\<rparr>] \<and>
     length (filter (\<lambda>m. role m = Assistant) (messages (handleSendMessage r e body w))) =
       length (filter (\<lambda>m. role m = Assistant) (messages w)) + 1 \<and>
     messagesUsed (sessionLimits (handleSendMessage r e body w)) =
       messagesUsed (sessionLimits w) + 1 \<and>
     (user r \<noteq> None \<or> isGuest r \<longrightarrow>
        storage_get r (handleSendMessage r e body w) ''session-limits'' =
          Some (Limits ((sessionLimits w)\<lparr>messagesUsed := messagesUsed (sessionLimits w) + 1\<rparr>))) \<and>
     \<not> isLoading (handleSendMessage r e body w)"
proof (intro impI)
  assume h: "\<not> send_blocked r w \<and> chat_response e = Inl err"
  have eq: "handleSendMessage r e body w = send_finish e (send_begin r e body w)"
    using h by (simp add: handleSendMessage_def)
  have m: "messages (send_finish e (send_begin r e body w)) =
       messages w @
         [\<lparr>msg_id = toString (send_now e), content = body, role = User, timestamp = send_now e\<rparr>,
          \<lparr>msg_id = toString (reply_now e + 1),
           content = ''I'm having trouble connecting right now. Let's try again in a moment.'',
           role = Assistant, timestamp = reply_now e\<rparr>]"
    using h by (simp add: send_finish_def send_begin_messages apology_def)
  have l: "\<not> isLoading (send_finish e (send_begin r e body w))"
    using h by (simp add: send_finish_def)
  show "messages (handleSendMessage r e body w) =
       messages w @
         [\<lparr>msg_id = toString (send_now e), content = body, role = User, timestamp = send_now e\<rparr>,
          \<lparr>msg_id = toString (reply_now e + 1),
           content = ''I'm having trouble connecting right now. Let's try again in a moment.'',
           role = Assistant, timestamp = reply_now e\<rparr>] \<and>
     length (filter (\<lambda>m. role m = Assistant) (messages (handleSendMessage r e body w))) =
       length (filter (\<lambda>m. role m = Assistant) (messages w)) + 1 \<and>
     messagesUsed (sessionLimits (handleSendMessage r e body w)) =
       messagesUsed (sessionLimits w) + 1 \<and>
     (user r \<noteq> None \<or> isGuest r \<longrightarrow>
        storage_get r (handleSendMessage r e body w) ''session-limits'' =
          Some (Limits ((sessionLimits w)\<lparr>messagesUsed := messagesUsed (sessionLimits w) + 1\<rparr>))) \<and>
     \<not> isLoading (handleSendMessage r e body w)"
    unfolding eq using l by (simp add: m send_begin_limits storage_get_send_begin)
qed

theorem handleSendMessage_chat_failure_witness:
  "\<not> send_blocked free_user fresh_world \<and> chat_response chat_down = Inl (Error ''network'') \<and>
   map content (messages (handleSendMessage free_user chat_down ''hello'' fresh_world)) =
     [''Good morning'', ''hello'',
      ''I'm having trouble connecting right now. Let's try again in a moment.''] \<and>
   map role (messages (handleSendMessage free_user chat_down ''hello'' fresh_world)) =
     [Assistant, User, Assistant] \<and>
   messagesUsed (sessionLimits (handleSendMessage free_user chat_down ''hello'' fresh_world)) = 1"
proof -
  have h: "\<not> send_blocked free_user fresh_world \<and>
      chat_response chat_down = Inl (Error ''network'')"
    by (simp add: send_blocked_def isSessionExpired_def free_user_def fresh_world_def
        chat_down_def)
  show ?thesis
    using h handleSendMessage_chat_failure[of free_user fresh_world chat_down
        "Error ''network''" "''hello''"]
    by (simp add: fresh_world_def greeting_message_def)
qed

section \<open>The view of a render\<close>

text \<open>
  Claim C3.  On a render of a non-paid user whose session started more than the tier's
  time limit ago, the view is \<open>Expired\<close>, unless the limit-reached condition holds
  (a signed-in user, non-paid, with both the morning and the evening session completed
  today), in which case the view is \<open>LimitReached\<close>.  Whenever the limit-reached
  condition holds the view is \<open>LimitReached\<close>, whatever the elapsed time, so \<open>Expired\<close>
  is not shown.
\<close>

theorem view_expired_unless_limit_reached:
  "(\<not> is_pro r \<and> sessionStartTime w = Some t \<and>
    render_time r - t > sessionTimeLimit r * 60 * 1000 \<longrightarrow>
      view r w =
        (if user r \<noteq> None \<and> hasCompletedTodaysSession r (lastMorningSession (sessionLimits w)) \<and>
            hasCompletedTodaysSession r (lastEveningSession (sessionLimits w))
         then LimitReached else Expired)) \<and>
   (user r \<noteq> None \<and> \<not> is_pro r \<and>
    hasCompletedTodaysSession r (lastMorningSession (sessionLimits w)) \<and>
    hasCompletedTodaysSession r (lastEveningSession (sessionLimits w)) \<longrightarrow>
      view r w = LimitReached \<and> view r w \<noteq> Expired)"
  by (auto simp: view_def hasCompletedBothToday_def isSessionExpired_def)

theorem view_expired_unless_limit_reached_witness:
  "\<not> is_pro late_render \<and> sessionStartTime capped_world = Some 2000 \<and>
   render_time late_render - 2000 > sessionTimeLimit late_render * 60 * 1000 \<and>
   view late_render capped_world = Expired \<and>
   view late_render both_done_world = LimitReached \<and>
   view (late_render\<lparr>user := None, isGuest := True\<rparr>) both_done_world = Expired"
proof -
  have a: "\<not> is_pro late_render \<and> sessionStartTime capped_world = Some 2000 \<and>
     render_time late_render - 2000 > sessionTimeLimit late_render * 60 * 1000"
    by (simp add: late_render_def free_user_def capped_world_def fresh_world_def)
  have b: "view late_render capped_world = Expired"
    using a view_expired_unless_limit_reached[of late_render capped_world 2000]
    by (simp add: late_render_def free_user_def capped_world_def fresh_world_def)
  have c: "view late_render both_done_world = LimitReached"
    using view_expired_unless_limit_reached[of late_render both_done_world 2000]
    by (simp add: late_render_def free_user_def both_done_world_def capped_world_def
        fresh_world_def)
  have d: "view (late_render\<lparr>user := None, isGuest := True\<rparr>) both_done_world = Expired"
    using view_expired_unless_limit_reached[of "late_render\<lparr>user := None, isGuest := True\<rparr>"
        both_done_world 2000]
    by (simp add: late_render_def free_user_def both_done_world_def capped_world_def
        fresh_world_def)
  show ?thesis using a b c d by simp
qed

section \<open>The offer-insight flag\<close>

lemma generate_flag:
  "generateInsightCard r e ms w = (res, w2) \<Longrightarrow>
   showGenerateInsightButton w2 = showGenerateInsightButton w \<and>
   userMessagesSinceLastInsight w2 = userMessagesSinceLastInsight w"
  by (auto simp: generateInsightCard_def Let_def split: sum.splits)

lemma click_flag:
  "showGenerateInsightButton (handleGenerateInsightClick r e w) = (insight_outcome r e w \<noteq> Inr ()) \<and>
   userMessagesSinceLastInsight (handleGenerateInsightClick r e w) =
     (if insight_outcome r e w = Inr () then 0 else userMessagesSinceLastInsight w)"
  by (auto simp: handleGenerateInsightClick_def insight_outcome_def Let_def
      split: prod.splits sum.splits dest: generate_flag)

lemma send_flag:
  "showGenerateInsightButton (handleSendMessage r s body w) =
     (showGenerateInsightButton w \<or>
      (\<not> send_blocked r w \<and> (userMessagesSinceLastInsight w + 1) mod 5 = 0 \<and>
       userMessagesSinceLastInsight w + 1 > 0)) \<and>
   userMessagesSinceLastInsight (handleSendMessage r s body w) =
     (if send_blocked r w then userMessagesSinceLastInsight w
      else userMessagesSinceLastInsight w + 1)"
  by (auto simp: handleSendMessage_def send_finish_def send_begin_def Let_def split: sum.splits)

lemma new_session_flag:
  "\<not> showGenerateInsightButton (handleNewSession r now w) \<and>
   userMessagesSinceLastInsight (handleNewSession r now w) = 0"
  by (simp add: handleNewSession_def localStorage_setItem_def Let_def)

text \<open>
  Claim C4, as stated, lets the flag fall back to false only when the user triggers
  insight generation.  Starting a new session clears it as well.
\<close>

theorem new_session_clears_offer:
  "showGenerateInsightButton offered_world \<and>
   \<not> showGenerateInsightButton (handleNewSession pro_user 5000 offered_world)"
  by (simp add: new_session_flag) (simp add: offered_world_def)

text \<open>
  Claim C4, amended.  After a send the flag is true exactly when it was true before or
  the send was accepted and took the counter of user messages since the last insight to
  a positive multiple of 5; so the flag becomes true only at such a send and stays true
  across sends.  A click on the insight button leaves the flag false and the counter at 0
  when the generation succeeds; when the generation throws, the flag is true again and the
  counter is what it was.  Starting a new session sets the flag to false and the counter
  to 0.  No other handler of the component writes the flag.
\<close>

theorem offer_insight_flag:
  "(showGenerateInsightButton (handleSendMessage r s body w) \<longleftrightarrow>
      showGenerateInsightButton w \<or>
      (\<not> send_blocked r w \<and> (userMessagesSinceLastInsight w + 1) mod 5 = 0 \<and>
       userMessagesSinceLastInsight w + 1 > 0)) \<and>
   userMessagesSinceLastInsight (handleSendMessage r s body w) =
     (if send_blocked r w then userMessagesSinceLastInsight w
      else userMessagesSinceLastInsight w + 1) \<and>
   (insight_outcome r e w = Inr () \<longrightarrow>
      \<not> showGenerateInsightButton (handleGenerateInsightClick r e w) \<and>
      userMessagesSinceLastInsight (handleGenerateInsightClick r e w) = 0) \<and>
   (insight_outcome r e w = Inl err \<longrightarrow>
      showGenerateInsightButton (handleGenerateInsightClick r e w) \<and>
      userMessagesSinceLastInsight (handleGenerateInsightClick r e w) =
        userMessagesSinceLastInsight w) \<and>
   \<not> showGenerateInsightButton (handleNewSession r now w) \<and>
   userMessagesSinceLastInsight (handleNewSession r now w) = 0"
  using send_flag[of r s body w] click_flag[of r e w] new_session_flag[of r now w]
  by auto

lemma insight_outcome_ok: "insight_outcome pro_user insight_ok offered_world = Inr ()"
  by (simp add: insight_outcome_def generateInsightCard_def capture_def insight_ok_def Let_def)

lemma insight_outcome_broken:
  "insight_outcome pro_user insight_broken offered_world = Inl (Error ''SecurityError'')"
  by (simp add: insight_outcome_def generateInsightCard_def capture_def insight_broken_def
      insight_ok_def offered_world_def four_sent_world_def fresh_world_def Let_def)

theorem offer_insight_flag_witness:
  "\<not> showGenerateInsightButton four_sent_world \<and>
   showGenerateInsightButton (handleSendMessage pro_user chat_ok ''fifth'' four_sent_world) \<and>
   showGenerateInsightButton (handleSendMessage pro_user chat_ok ''sixth'' offered_world) \<and>
   insight_outcome pro_user insight_ok offered_world = Inr () \<and>
   \<not> showGenerateInsightButton (handleGenerateInsightClick pro_user insight_ok offered_world) \<and>
   userMessagesSinceLastInsight (handleGenerateInsightClick pro_user insight_ok offered_world) = 0 \<and>
   insight_outcome pro_user insight_broken offered_world = Inl (Error ''SecurityError'') \<and>
   showGenerateInsightButton (handleGenerateInsightClick pro_user insight_broken offered_world) \<and>
   userMessagesSinceLastInsight (handleGenerateInsightClick pro_user insight_broken offered_world) = 5"
proof -
  have nb: "\<not> send_blocked pro_user four_sent_world" "\<not> send_blocked pro_user offered_world"
    by (simp_all add: send_blocked_def isSessionExpired_def pro_user_def free_user_def
        offered_world_def four_sent_world_def fresh_world_def)
  have v: "\<not> showGenerateInsightButton four_sent_world"
    "userMessagesSinceLastInsight four_sent_world = 4"
    "showGenerateInsightButton offered_world" "userMessagesSinceLastInsight offered_world = 5"
    by (simp_all add: offered_world_def four_sent_world_def fresh_world_def)
  have a: "showGenerateInsightButton (handleSendMessage pro_user chat_ok ''fifth'' four_sent_world)"
    using offer_insight_flag[of pro_user chat_ok "''fifth''" four_sent_world insight_ok
        "Error ''SecurityError''" 0] nb v
    by simp
  have b: "showGenerateInsightButton (handleSendMessage pro_user chat_ok ''sixth'' offered_world)"
    using offer_insight_flag[of pro_user chat_ok "''sixth''" offered_world insight_ok
        "Error ''SecurityError''" 0] nb v
    by simp
  have c: "\<not> showGenerateInsightButton (handleGenerateInsightClick pro_user insight_ok offered_world) \<and>
      userMessagesSinceLastInsight (handleGenerateInsightClick pro_user insight_ok offered_world) = 0"
    using offer_insight_flag[of pro_user chat_ok "''sixth''" offered_world insight_ok
        "Error ''SecurityError''" 0] insight_outcome_ok
    by simp
  have d: "showGenerateInsightButton (handleGenerateInsightClick pro_user insight_broken offered_world) \<and>
      userMessagesSinceLastInsight (handleGenerateInsightClick pro_user insight_broken offered_world) = 5"
    using offer_insight_flag[of pro_user chat_ok "''sixth''" offered_world insight_broken
        "Error ''SecurityError''" 0] insight_outcome_broken v
    by simp
  show ?thesis using v a b c d insight_outcome_ok insight_outcome_broken by simp
qed

section \<open>Starting a new session\<close>

lemma keep_recent_drop: "keep_recent xs = drop (length xs - 50) xs"
  by (simp add: keep_recent_def)

lemma length_keep_recent: "length (keep_recent xs) = min 50 (length xs)"
  by (simp add: keep_recent_def)

lemma get_sessions_save_archived:
  "user r \<noteq> None \<or> isGuest r \<Longrightarrow>
   get_sessions r (save_archived r a w) = keep_recent (get_sessions r w @ [a])"
  by (simp add: save_archived_def get_sessions_def storage_get_def storage_set_def
      localStorage_setItem_def sessionStorage_setItem_def)

lemma handleNewSession_state:
  "messages (handleNewSession r now w) =
     [\<lparr>msg_id = ''greeting'', content = greeting (timeOfDay r), role = Assistant, timestamp = now\<rparr>]"
  "sessionStartTime (handleNewSession r now w) = Some now"
  "insightCard (handleNewSession r now w) = None"
  by (simp_all add: handleNewSession_def localStorage_setItem_def Let_def)

lemma handleNewSession_sessions:
  assumes "length (messages w) > 1" and "user r \<noteq> None \<or> isGuest r"
  shows "get_sessions r (handleNewSession r now w) =
     keep_recent (get_sessions r w @
       [archived_of r w now (toString now) (map_option ic_id (insightCard w))])"
proof (cases "user r")
  case None
  then show ?thesis using assms
    by (simp add: handleNewSession_def save_archived_def saveSessionLimits_def get_sessions_def
        storage_get_def storage_set_def localStorage_setItem_def sessionStorage_setItem_def Let_def)
next
  case (Some u)
  then show ?thesis using assms
    by (simp add: handleNewSession_def save_archived_def saveSessionLimits_def get_sessions_def
        storage_get_def storage_set_def localStorage_setItem_def sessionStorage_setItem_def Let_def)
qed

lemma handleNewSession_stored_limits:
  assumes "user r \<noteq> None \<or> isGuest r"
  shows "storage_get r (handleNewSession r now w) ''session-limits'' =
     Some (Limits ((sessionLimits w)\<lparr>messagesUsed := 0\<rparr>))"
  using assms
  by (cases "user r")
    (simp_all add: handleNewSession_def saveSessionLimits_def storage_get_def storage_set_def
      localStorage_setItem_def sessionStorage_setItem_def Let_def)

lemma handleNewSession_buffer:
  "storage_get r (handleNewSession r now w) ''current-session-messages'' = Some Null"
  by (cases "user r")
    (simp_all add: handleNewSession_def saveSessionLimits_def storage_get_def storage_set_def
      localStorage_setItem_def sessionStorage_setItem_def Let_def)

lemma handleNewSession_local_start:
  "localStorage (handleNewSession r now w) ''session-start-time'' = Some (StartTime now)"
  by (cases "user r")
    (simp_all add: handleNewSession_def save_archived_def saveSessionLimits_def storage_set_def
      localStorage_setItem_def sessionStorage_setItem_def Let_def)

lemma handleNewSession_guest_stores:
  assumes "user r = None"
  shows "localStorage (handleNewSession r now w) =
           (localStorage w)(''session-start-time'' \<mapsto> StartTime now)"
    and "sessionStorage (handleNewSession r now w) ''session-start-time'' =
           sessionStorage w ''session-start-time''"
  using assms
  by (simp_all add: handleNewSession_def save_archived_def saveSessionLimits_def storage_set_def
      localStorage_setItem_def sessionStorage_setItem_def Let_def)

lemma handleNewSession_start_writes:
  "filter (writes_key ''session-start-time'') (new_effects w (handleNewSession r now w)) =
     [StorageWrite Durable ''session-start-time'' (StartTime now)]"
  by (cases "user r")
    (simp_all add: new_effects_def handleNewSession_def save_archived_def saveSessionLimits_def
      storage_set_def localStorage_setItem_def sessionStorage_setItem_def Let_def)

text \<open>
  Claim C2 fails as stated, in two places.  For a visitor who is neither signed in nor a
  guest the handler stores no archived session and no limits (the writes are guarded by
  \<^verbatim>\<open>user || isGuest\<close>).  For a signed-in user the limits that end up in the state and in
  the store do not carry the last-completed instant: the handler's last
  \<^verbatim>\<open>saveSessionLimits\<close> is built from the render's \<open>sessionLimits\<close> and replaces the record
  that carried it.
\<close>

theorem handleNewSession_misses:
  "length (messages talked_world) > 1 \<and>
   get_sessions anonymous_user (handleNewSession anonymous_user 5000 talked_world) = [] \<and>
   filter (writes_key ''komorebi-chat-sessions'')
     (new_effects talked_world (handleNewSession anonymous_user 5000 talked_world)) = [] \<and>
   storage_get anonymous_user (handleNewSession anonymous_user 5000 talked_world)
     ''session-limits'' = None \<and>
   sessionType free_user = Morning \<and>
   storage_get free_user (handleNewSession free_user 5000 talked_world) ''session-limits'' =
     Some (Limits \<lparr>morningCompleted = False, eveningCompleted = False, messagesUsed = 0,
                   maxMessages = 4, lastMorningSession = None, lastEveningSession = None\<rparr>) \<and>
   lastMorningSession (sessionLimits (handleNewSession free_user 5000 talked_world)) = None"
proof -
  have a: "length (messages talked_world) > 1"
    by (simp add: talked_world_def)
  have b: "get_sessions anonymous_user (handleNewSession anonymous_user 5000 talked_world) = []"
    by (simp add: handleNewSession_def save_archived_def saveSessionLimits_def get_sessions_def
        storage_get_def storage_set_def localStorage_setItem_def sessionStorage_setItem_def
        Let_def anonymous_user_def free_user_def talked_world_def fresh_world_def)
  have c: "filter (writes_key ''komorebi-chat-sessions'')
     (new_effects talked_world (handleNewSession anonymous_user 5000 talked_world)) = []"
    by (simp add: new_effects_def handleNewSession_def save_archived_def saveSessionLimits_def
        storage_set_def localStorage_setItem_def sessionStorage_setItem_def
        Let_def anonymous_user_def free_user_def talked_world_def fresh_world_def)
  have d: "storage_get anonymous_user (handleNewSession anonymous_user 5000 talked_world)
     ''session-limits'' = None"
    by (simp add: handleNewSession_def save_archived_def saveSessionLimits_def
        storage_get_def storage_set_def localStorage_setItem_def sessionStorage_setItem_def
        Let_def anonymous_user_def free_user_def talked_world_def fresh_world_def)
  have e: "sessionType free_user = Morning"
    by (simp add: sessionType_def free_user_def)
  have f: "storage_get free_user (handleNewSession free_user 5000 talked_world) ''session-limits'' =
     Some (Limits \<lparr>morningCompleted = False, eveningCompleted = False, messagesUsed = 0,
                   maxMessages = 4, lastMorningSession = None, lastEveningSession = None\<rparr>)"
    by (simp add: handleNewSession_stored_limits free_user_def)
      (simp add: talked_world_def fresh_world_def)
  have g: "lastMorningSession (sessionLimits (handleNewSession free_user 5000 talked_world)) = None"
    by (simp add: handleNewSession_limits talked_world_def fresh_world_def)
  show ?thesis using a b c d e f g by simp
qed

text \<open>
  Claim C2, amended.  When the outgoing session has more than the greeting, the
  new-session action, for a signed-in or guest identity, appends the outgoing session
  to the archived list of the identity's store (cut to the 50 most recent) and stores
  limits whose \<open>messagesUsed\<close> is 0; for every identity it resets \<open>messagesUsed\<close> and the
  counter of messages since the last insight to 0, replaces the transcript by one fresh
  greeting, writes \<^verbatim>\<open>null\<close> to the stored message buffer of the identity's store, and
  starts the session timer at the current instant.  Nothing is said about the
  last-completed instants.
\<close>

theorem handleNewSession_resets:
  "length (messages w) > 1 \<longrightarrow>
     (user r \<noteq> None \<or> isGuest r \<longrightarrow>
        get_sessions r (handleNewSession r now w) =
          keep_recent (get_sessions r w @
            [archived_of r w now (toString now) (map_option ic_id (insightCard w))]) \<and>
        (\<exists>l. storage_get r (handleNewSession r now w) ''session-limits'' = Some (Limits l) \<and>
             messagesUsed l = 0)) \<and>
     messagesUsed (sessionLimits (handleNewSession r now w)) = 0 \<and>
     userMessagesSinceLastInsight (handleNewSession r now w) = 0 \<and>
     messages (handleNewSession r now w) =
       [\<lparr>msg_id = ''greeting'', content = greeting (timeOfDay r), role = Assistant,
         timestamp = now\<rparr>] \<and>
     storage_get r (handleNewSession r now w) ''current-session-messages'' = Some Null \<and>
     sessionStartTime (handleNewSession r now w) = Some now"
  by (simp add: handleNewSession_sessions handleNewSession_stored_limits handleNewSession_limits
      new_session_flag handleNewSession_state handleNewSession_buffer)

theorem handleNewSession_resets_witness:
  "length (messages talked_world) > 1 \<and> user free_user \<noteq> None \<and>
   map as_messages (get_sessions free_user (handleNewSession free_user 5000 talked_world)) =
     [[\<lparr>msg_id = ''2000'', content = ''hello'', role = User, timestamp = 2000\<rparr>,
       \<lparr>msg_id = ''2501'', content = ''Tell me more'', role = Assistant, timestamp = 2500\<rparr>]] \<and>
   messagesUsed (sessionLimits (handleNewSession free_user 5000 talked_world)) = 0 \<and>
   map content (messages (handleNewSession free_user 5000 talked_world)) = [''Good morning''] \<and>
   sessionStartTime (handleNewSession free_user 5000 talked_world) = Some 5000"
proof -
  have h: "length (messages talked_world) > 1" "user free_user \<noteq> None"
    by (simp_all add: talked_world_def free_user_def)
  have old: "get_sessions free_user talked_world = []"
    by (simp add: get_sessions_def storage_get_def talked_world_def fresh_world_def)
  show ?thesis
    using h handleNewSession_resets[of talked_world free_user 5000]
    by (simp add: old keep_recent_def archived_of_def)
      (simp add: talked_world_def greeting_message_def free_user_def)
qed

text \<open>
  The \<^verbatim>\<open>null\<close> does not stay in the buffer: the transcript changed, so the effect that
  saves the transcript runs after the next render and stores the one-greeting transcript.
\<close>

lemma new_session_then_saved:
  "storage_get r (saveMessagesEffect r (handleNewSession r now w)) ''current-session-messages'' =
     Some (Messages [\<lparr>msg_id = ''greeting'', content = greeting (timeOfDay r), role = Assistant,
                       timestamp = now\<rparr>])"
  by (cases "user r")
    (simp_all add: saveMessagesEffect_def handleNewSession_state storage_get_def storage_set_def
      localStorage_setItem_def sessionStorage_setItem_def)

section \<open>Where the new session's start time is stored\<close>

text \<open>
  Claim C10.  For every identity \<^verbatim>\<open>handleNewSession\<close> puts the new start time under
  \<^verbatim>\<open>session-start-time\<close> in \<^verbatim>\<open>localStorage\<close>, and this is its only write to that key: the
  write does not go through the adapter that picks the store by identity.  For a guest
  (no signed-in user) it is also the handler's only change to \<^verbatim>\<open>localStorage\<close>; the
  key in \<^verbatim>\<open>sessionStorage\<close> keeps its content, so a read through the adapter returns
  after the call what it returned before, not the new start time the state holds.
\<close>

theorem handleNewSession_start_time_durable:
  "localStorage (handleNewSession r now w) ''session-start-time'' = Some (StartTime now) \<and>
   filter (writes_key ''session-start-time'') (new_effects w (handleNewSession r now w)) =
     [StorageWrite Durable ''session-start-time'' (StartTime now)] \<and>
   sessionStartTime (handleNewSession r now w) = Some now \<and>
   (user r = None \<longrightarrow>
      localStorage (handleNewSession r now w) =
        (localStorage w)(''session-start-time'' \<mapsto> StartTime now) \<and>
      sessionStorage (handleNewSession r now w) ''session-start-time'' =
        sessionStorage w ''session-start-time'' \<and>
      storage_get r (handleNewSession r now w) ''session-start-time'' =
        storage_get r w ''session-start-time'')"
  by (simp add: handleNewSession_local_start handleNewSession_start_writes
      handleNewSession_state handleNewSession_guest_stores storage_get_def)

theorem handleNewSession_start_time_durable_witness:
  "user guest_user = None \<and>
   sessionStartTime (handleNewSession guest_user 5000 talked_world) = Some 5000 \<and>
   localStorage (handleNewSession guest_user 5000 talked_world) ''session-start-time'' =
     Some (StartTime 5000) \<and>
   storage_get guest_user (handleNewSession guest_user 5000 talked_world) ''session-start-time'' =
     None"
proof -
  have h: "user guest_user = None"
    by (simp add: guest_user_def)
  have old: "storage_get guest_user talked_world ''session-start-time'' = None"
    by (simp add: storage_get_def talked_world_def fresh_world_def)
  show ?thesis
    using h old handleNewSession_start_time_durable[of guest_user 5000 talked_world]
    by simp
qed

section \<open>The archived list\<close>

lemma get_sessions_frame [simp]:
  "get_sessions r (w\<lparr>insightCard := c\<rparr>) = get_sessions r w"
  "get_sessions r (w\<lparr>effects := es\<rparr>) = get_sessions r w"
  "get_sessions r (w\<lparr>userMessagesSinceLastInsight := n\<rparr>) = get_sessions r w"
  "get_sessions r (w\<lparr>isGeneratingInsight := b\<rparr>) = get_sessions r w"
  "get_sessions r (w\<lparr>showGenerateInsightButton := b\<rparr>) = get_sessions r w"
  "get_sessions r (storage_set r ''insight-cards'' v w) = get_sessions r w"
  by (simp_all add: get_sessions_def storage_get_def storage_set_def localStorage_setItem_def
      sessionStorage_setItem_def)

lemma archived_of_frame [simp]:
  "archived_of r (w\<lparr>insightCard := c\<rparr>) = archived_of r w"
  "archived_of r (w\<lparr>effects := es\<rparr>) = archived_of r w"
  "archived_of r (w\<lparr>isGeneratingInsight := b\<rparr>) = archived_of r w"
  "archived_of r (w\<lparr>showGenerateInsightButton := b\<rparr>) = archived_of r w"
  "archived_of r (storage_set r k v w) = archived_of r w"
  by (simp_all add: archived_of_def fun_eq_iff)

lemma archiveCurrentSession_sessions:
  "user r \<noteq> None \<Longrightarrow> length (messages w) > 1 \<Longrightarrow>
   get_sessions r (archiveCurrentSession r now sid iid w) =
     keep_recent (get_sessions r w @ [archived_of r w now sid iid])"
  by (auto simp: archiveCurrentSession_def get_sessions_save_archived)

lemma publish_insight_sessions:
  "user r \<noteq> None \<Longrightarrow> length (messages w) > 1 \<Longrightarrow>
   get_sessions r (publish_insight r now q st w) =
     keep_recent (get_sessions r w @ [archived_of r w now (toString now) (Some (toString now))])"
  by (simp add: publish_insight_def Let_def archiveCurrentSession_sessions)

lemma publish_insight_card:
  "insightCard (publish_insight r now q st w) =
     Some \<lparr>ic_id = toString now, ic_quote = q, ic_type = sessionType r,
           ic_sessionId = toString now, ic_createdAt = now, ic_sceneType = currentScene w,
           ic_videoStillUrl = or_undefined st\<rparr>"
  by (simp add: publish_insight_def Let_def)

lemma generate_resolved:
  "generateInsightCard r e ms w = (Inr u, w2) \<Longrightarrow>
   \<exists>now q st. w2 = publish_insight r now q st
                 (w\<lparr>effects := effects w @ [InsightRequest ms (sessionType r)]\<rparr>)"
  by (auto simp: generateInsightCard_def Let_def split: sum.splits)

lemma click_sessions:
  assumes ok: "insight_outcome r e w = Inr ()" and u: "user r \<noteq> None"
    and m: "length (messages w) > 1"
  shows "\<exists>a. get_sessions r (handleGenerateInsightClick r e w) =
               keep_recent (get_sessions r w @ [a]) \<and>
             as_messages a = filter (\<lambda>m. msg_id m \<noteq> ''greeting'') (messages w) \<and>
             as_insightCardId a = map_option ic_id (insightCard (handleGenerateInsightClick r e w))"
proof -
  let ?ms = "filter (\<lambda>m. msg_id m \<noteq> ''greeting'') (messages w)"
  let ?w1 = "w\<lparr>isGeneratingInsight := True, showGenerateInsightButton := False\<rparr>"
  obtain w2 where g: "generateInsightCard r e ?ms ?w1 = (Inr (), w2)"
    using ok unfolding insight_outcome_def by (metis prod.collapse)
  obtain now q st where w2: "w2 = publish_insight r now q st
      (?w1\<lparr>effects := effects ?w1 @ [InsightRequest ?ms (sessionType r)]\<rparr>)"
    using generate_resolved[OF g] by blast
  have c: "handleGenerateInsightClick r e w =
      w2\<lparr>userMessagesSinceLastInsight := 0, isGeneratingInsight := False\<rparr>"
    by (simp add: handleGenerateInsightClick_def Let_def g)
  have s: "get_sessions r w2 =
      keep_recent (get_sessions r w @ [archived_of r ?w1 now (toString now) (Some (toString now))])"
    unfolding w2 using u m by (simp add: publish_insight_sessions)
  have "as_messages (archived_of r ?w1 now (toString now) (Some (toString now))) = ?ms"
    "as_insightCardId (archived_of r ?w1 now (toString now) (Some (toString now))) =
       map_option ic_id (insightCard (handleGenerateInsightClick r e w))"
    by (simp_all add: c w2 publish_insight_card archived_of_def)
  then show ?thesis using s c by auto
qed

text \<open>
  Claim C6 names the evicted entries as those with the lowest \<open>createdAt\<close>.  The cut is
  by position in the stored list.  Here the stored list holds fifty sessions, the first
  of them created later than the others: the new session's archival drops that first
  entry and keeps the forty-nine older ones.
\<close>

theorem eviction_by_position_not_createdAt:
  "get_sessions free_user full_archive_world = archived_late # replicate 49 archived_early \<and>
   as_createdAt archived_early < as_createdAt archived_late \<and>
   length (get_sessions free_user (handleNewSession free_user 5000 full_archive_world)) = 50 \<and>
   archived_late \<notin> set (get_sessions free_user (handleNewSession free_user 5000 full_archive_world)) \<and>
   archived_early \<in> set (get_sessions free_user (handleNewSession free_user 5000 full_archive_world))"
proof -
  have old: "get_sessions free_user full_archive_world = archived_late # replicate 49 archived_early"
    by (simp add: get_sessions_def storage_get_def full_archive_world_def free_user_def)
  have h: "length (messages full_archive_world) > 1" "user free_user \<noteq> None \<or> isGuest free_user"
    by (simp_all add: full_archive_world_def talked_world_def free_user_def)
  have new: "get_sessions free_user (handleNewSession free_user 5000 full_archive_world) =
      replicate 49 archived_early @
        [archived_of free_user full_archive_world 5000 (toString 5000)
           (map_option ic_id (insightCard full_archive_world))]"
    by (simp add: handleNewSession_sessions[OF h] old keep_recent_def)
  have ne: "archived_late \<noteq> archived_early"
    by (simp add: archived_late_def archived_early_def)
  have ne2: "archived_late \<noteq> archived_of free_user full_archive_world 5000 (toString 5000)
           (map_option ic_id (insightCard full_archive_world))"
    by (simp add: archived_late_def archived_of_def sessionType_def free_user_def)
  show ?thesis
    using old ne ne2 by (simp add: new) (simp add: archived_late_def archived_early_def)
qed

text \<open>
  Claim C6, amended.  After an archival by either path the stored list is the old list
  with the new session appended, cut from the front to its last 50 entries: entries leave
  in the order in which they stand in the stored list, whatever their \<open>createdAt\<close>, and
  the list has \<open>min 50 (n + 1)\<close> entries, so at most 50, and exactly 50 once it held 49
  or more.  The new-session path archives for a signed-in or guest identity whose
  transcript has more than the greeting; the insight path archives for a signed-in user
  whose transcript has more than the greeting, both through \<open>archiveCurrentSession\<close>
  itself and through a click whose generation succeeds.
\<close>

theorem archived_list_capped:
  "(length (messages w) > 1 \<and> (user r \<noteq> None \<or> isGuest r) \<longrightarrow>
      get_sessions r (handleNewSession r now w) =
        drop (length (get_sessions r w) + 1 - 50)
          (get_sessions r w @
             [archived_of r w now (toString now) (map_option ic_id (insightCard w))]) \<and>
      length (get_sessions r (handleNewSession r now w)) = min 50 (length (get_sessions r w) + 1)) \<and>
   (length (messages w) > 1 \<and> user r \<noteq> None \<longrightarrow>
      get_sessions r (archiveCurrentSession r now sid iid w) =
        drop (length (get_sessions r w) + 1 - 50)
          (get_sessions r w @ [archived_of r w now sid iid]) \<and>
      length (get_sessions r (archiveCurrentSession r now sid iid w)) =
        min 50 (length (get_sessions r w) + 1)) \<and>
   (length (messages w) > 1 \<and> user r \<noteq> None \<and> insight_outcome r e w = Inr () \<longrightarrow>
      (\<exists>a. get_sessions r (handleGenerateInsightClick r e w) =
              drop (length (get_sessions r w) + 1 - 50) (get_sessions r w @ [a]) \<and>
            as_messages a = filter (\<lambda>m. msg_id m \<noteq> ''greeting'') (messages w) \<and>
            as_insightCardId a =
              map_option ic_id (insightCard (handleGenerateInsightClick r e w))) \<and>
      length (get_sessions r (handleGenerateInsightClick r e w)) =
        min 50 (length (get_sessions r w) + 1))"
proof (intro conjI impI)
  assume h: "length (messages w) > 1 \<and> (user r \<noteq> None \<or> isGuest r)"
  then show "get_sessions r (handleNewSession r now w) =
        drop (length (get_sessions r w) + 1 - 50)
          (get_sessions r w @
             [archived_of r w now (toString now) (map_option ic_id (insightCard w))])"
    by (simp add: handleNewSession_sessions keep_recent_drop)
  from h show "length (get_sessions r (handleNewSession r now w)) =
      min 50 (length (get_sessions r w) + 1)"
    by (simp add: handleNewSession_sessions length_keep_recent)
next
  assume h: "length (messages w) > 1 \<and> user r \<noteq> None"
  then show "get_sessions r (archiveCurrentSession r now sid iid w) =
        drop (length (get_sessions r w) + 1 - 50)
          (get_sessions r w @ [archived_of r w now sid iid])"
    by (simp add: archiveCurrentSession_sessions keep_recent_drop)
  from h show "length (get_sessions r (archiveCurrentSession r now sid iid w)) =
        min 50 (length (get_sessions r w) + 1)"
    by (simp add: archiveCurrentSession_sessions length_keep_recent)
next
  assume h: "length (messages w) > 1 \<and> user r \<noteq> None \<and> insight_outcome r e w = Inr ()"
  then obtain a where a: "get_sessions r (handleGenerateInsightClick r e w) =
               keep_recent (get_sessions r w @ [a])"
      "as_messages a = filter (\<lambda>m. msg_id m \<noteq> ''greeting'') (messages w)"
      "as_insightCardId a = map_option ic_id (insightCard (handleGenerateInsightClick r e w))"
    using click_sessions[of r e w] by blast
  then show "\<exists>a. get_sessions r (handleGenerateInsightClick r e w) =
              drop (length (get_sessions r w) + 1 - 50) (get_sessions r w @ [a]) \<and>
            as_messages a = filter (\<lambda>m. msg_id m \<noteq> ''greeting'') (messages w) \<and>
            as_insightCardId a =
              map_option ic_id (insightCard (handleGenerateInsightClick r e w))"
    by (auto simp: keep_recent_drop)
  from a show "length (get_sessions r (handleGenerateInsightClick r e w)) =
        min 50 (length (get_sessions r w) + 1)"
    by (simp add: length_keep_recent)
qed

lemma insight_outcome_full: "insight_outcome free_user insight_ok full_archive_world = Inr ()"
  by (simp add: insight_outcome_def generateInsightCard_def capture_def insight_ok_def Let_def)

theorem archived_list_capped_witness:
  "length (messages full_archive_world) > 1 \<and> user free_user \<noteq> None \<and>
   insight_outcome free_user insight_ok full_archive_world = Inr () \<and>
   length (get_sessions free_user full_archive_world) = 50 \<and>
   length (get_sessions free_user (handleNewSession free_user 5000 full_archive_world)) = 50 \<and>
   take 49 (get_sessions free_user (handleNewSession free_user 5000 full_archive_world)) =
     replicate 49 archived_early \<and>
   length (get_sessions free_user
     (archiveCurrentSession free_user 5000 ''5000'' None full_archive_world)) = 50 \<and>
   length (get_sessions free_user
     (handleGenerateInsightClick free_user insight_ok full_archive_world)) = 50"
proof -
  have old: "get_sessions free_user full_archive_world = archived_late # replicate 49 archived_early"
    by (simp add: get_sessions_def storage_get_def full_archive_world_def free_user_def)
  have h: "length (messages full_archive_world) > 1" "user free_user \<noteq> None"
    by (simp_all add: full_archive_world_def talked_world_def free_user_def)
  show ?thesis
    using h insight_outcome_full
      archived_list_capped[of full_archive_world free_user 5000 "''5000''" None insight_ok]
    by (simp add: old)
qed

section \<open>Insight generation by a guest\<close>

lemma guest_generate:
  assumes "user r = None" and "generateInsightCard r e ms w = (res, w2)"
  shows "localStorage w2 = localStorage w"
    and "k \<noteq> ''insight-cards'' \<Longrightarrow> sessionStorage w2 k = sessionStorage w k"
    and "k \<noteq> ''insight-cards'' \<Longrightarrow>
         filter (writes_key k) (drop (length (effects w)) (effects w2)) = []"
  using assms
  by (auto simp: generateInsightCard_def publish_insight_def archiveCurrentSession_def
      storage_set_def sessionStorage_setItem_def Let_def split: sum.splits)

lemma guest_publish:
  assumes "user r = None" and "isGuest r"
  shows "\<exists>card. insightCard (publish_insight r now q st w) = Some card \<and>
     get_insights r (publish_insight r now q st w) = get_insights r w @ [card] \<and>
     StorageWrite Ephemeral ''insight-cards'' (Insights (get_insights r w @ [card]))
       \<in> set (drop (length (effects w)) (effects (publish_insight r now q st w)))"
  using assms
  by (simp add: publish_insight_def archiveCurrentSession_def storage_set_def
      sessionStorage_setItem_def get_insights_def storage_get_def Let_def)

lemma guest_generate_resolved:
  assumes "user r = None" and "isGuest r" and "generateInsightCard r e ms w = (Inr u, w2)"
  shows "\<exists>card. insightCard w2 = Some card \<and>
     get_insights r w2 = get_insights r w @ [card] \<and>
     StorageWrite Ephemeral ''insight-cards'' (Insights (get_insights r w @ [card]))
       \<in> set (drop (length (effects w)) (effects w2))"
proof -
  let ?w0 = "w\<lparr>effects := effects w @ [InsightRequest ms (sessionType r)]\<rparr>"
  obtain now q st where w2: "w2 = publish_insight r now q st ?w0"
    using generate_resolved[OF assms(3)] by blast
  obtain card where c: "insightCard w2 = Some card"
    "get_insights r w2 = get_insights r ?w0 @ [card]"
    "StorageWrite Ephemeral ''insight-cards'' (Insights (get_insights r ?w0 @ [card]))
       \<in> set (drop (length (effects ?w0)) (effects w2))"
    using guest_publish[OF assms(1,2), of now q st ?w0] unfolding w2 by blast
  have g: "get_insights r ?w0 = get_insights r w"
    by (simp add: get_insights_def storage_get_def)
  have "set (drop (length (effects ?w0)) (effects w2)) \<subseteq> set (drop (length (effects w)) (effects w2))"
    by (rule set_drop_subset_set_drop) simp
  then show ?thesis using c g by auto
qed

text \<open>
  Claim C9.  Under an identity with no signed-in user \<open>archiveCurrentSession\<close> returns
  the world it was given.  A click on the insight button then leaves \<^verbatim>\<open>localStorage\<close>,
  the archived-session list and the session limits (in the store and in the state) as
  they were and writes neither key; when the identity is a guest and the generation
  succeeds, the card that is shown is appended to the stored insight list.
\<close>

theorem guest_insight_archives_nothing:
  "user r = None \<longrightarrow>
     archiveCurrentSession r now sid iid w = w \<and>
     localStorage (handleGenerateInsightClick r e w) = localStorage w \<and>
     sessionStorage (handleGenerateInsightClick r e w) ''komorebi-chat-sessions'' =
       sessionStorage w ''komorebi-chat-sessions'' \<and>
     sessionStorage (handleGenerateInsightClick r e w) ''session-limits'' =
       sessionStorage w ''session-limits'' \<and>
     filter (writes_key ''komorebi-chat-sessions'')
       (new_effects w (handleGenerateInsightClick r e w)) = [] \<and>
     filter (writes_key ''session-limits'')
       (new_effects w (handleGenerateInsightClick r e w)) = [] \<and>
     sessionLimits (handleGenerateInsightClick r e w) = sessionLimits w \<and>
     (isGuest r \<and> insight_outcome r e w = Inr () \<longrightarrow>
        (\<exists>card. insightCard (handleGenerateInsightClick r e w) = Some card \<and>
           get_insights r (handleGenerateInsightClick r e w) = get_insights r w @ [card] \<and>
           StorageWrite Ephemeral ''insight-cards'' (Insights (get_insights r w @ [card]))
             \<in> set (new_effects w (handleGenerateInsightClick r e w))))"
proof (intro impI)
  assume u: "user r = None"
  let ?ms = "filter (\<lambda>m. msg_id m \<noteq> ''greeting'') (messages w)"
  let ?w1 = "w\<lparr>isGeneratingInsight := True, showGenerateInsightButton := False\<rparr>"
  let ?c = "handleGenerateInsightClick r e w"
  obtain res w2 where g: "generateInsightCard r e ?ms ?w1 = (res, w2)"
    by (metis prod.collapse)
  have c: "localStorage ?c = localStorage w2" "sessionStorage ?c = sessionStorage w2"
    "effects ?c = effects w2" "insightCard ?c = insightCard w2"
    "get_insights r ?c = get_insights r w2"
    by (simp_all add: handleGenerateInsightClick_def Let_def g get_insights_def storage_get_def
        split: sum.splits)
  note gg = guest_generate[OF u g]
  have a1: "archiveCurrentSession r now sid iid w = w"
    using u by (simp add: archiveCurrentSession_def)
  have a2: "localStorage ?c = localStorage w"
    using gg(1) c by simp
  have a3: "sessionStorage ?c ''komorebi-chat-sessions'' = sessionStorage w ''komorebi-chat-sessions''"
    "sessionStorage ?c ''session-limits'' = sessionStorage w ''session-limits''"
    using gg(2)[of "''komorebi-chat-sessions''"] gg(2)[of "''session-limits''"] c by simp_all
  have a4: "filter (writes_key ''komorebi-chat-sessions'') (new_effects w ?c) = []"
    "filter (writes_key ''session-limits'') (new_effects w ?c) = []"
    using gg(3)[of "''komorebi-chat-sessions''"] gg(3)[of "''session-limits''"] c
    by (simp_all add: new_effects_def)
  have a5: "isGuest r \<and> insight_outcome r e w = Inr () \<longrightarrow>
        (\<exists>card. insightCard ?c = Some card \<and>
           get_insights r ?c = get_insights r w @ [card] \<and>
           StorageWrite Ephemeral ''insight-cards'' (Insights (get_insights r w @ [card]))
             \<in> set (new_effects w ?c))"
  proof
    assume h: "isGuest r \<and> insight_outcome r e w = Inr ()"
    then have res: "res = Inr ()"
      using g by (simp add: insight_outcome_def)
    have gi: "get_insights r ?w1 = get_insights r w"
      by (simp add: get_insights_def storage_get_def)
    show "\<exists>card. insightCard ?c = Some card \<and>
           get_insights r ?c = get_insights r w @ [card] \<and>
           StorageWrite Ephemeral ''insight-cards'' (Insights (get_insights r w @ [card]))
             \<in> set (new_effects w ?c)"
      using guest_generate_resolved[OF u _ g[unfolded res]] h c gi
      by (simp add: new_effects_def)
  qed
  show "archiveCurrentSession r now sid iid w = w \<and>
     localStorage ?c = localStorage w \<and>
     sessionStorage ?c ''komorebi-chat-sessions'' = sessionStorage w ''komorebi-chat-sessions'' \<and>
     sessionStorage ?c ''session-limits'' = sessionStorage w ''session-limits'' \<and>
     filter (writes_key ''komorebi-chat-sessions'') (new_effects w ?c) = [] \<and>
     filter (writes_key ''session-limits'') (new_effects w ?c) = [] \<and>
     sessionLimits ?c = sessionLimits w \<and>
     (isGuest r \<and> insight_outcome r e w = Inr () \<longrightarrow>
        (\<exists>card. insightCard ?c = Some card \<and>
           get_insights r ?c = get_insights r w @ [card] \<and>
           StorageWrite Ephemeral ''insight-cards'' (Insights (get_insights r w @ [card]))
             \<in> set (new_effects w ?c)))"
    using a1 a2 a3 a4 a5 by simp
qed

lemma insight_outcome_guest: "insight_outcome guest_user insight_ok talked_world = Inr ()"
  by (simp add: insight_outcome_def generateInsightCard_def capture_def insight_ok_def Let_def)

theorem guest_insight_archives_nothing_witness:
  "user guest_user = None \<and> isGuest guest_user \<and>
   insight_outcome guest_user insight_ok talked_world = Inr () \<and>
   length (messages talked_world) > 1 \<and>
   archiveCurrentSession guest_user 4000 ''4000'' (Some ''4000'') talked_world = talked_world \<and>
   get_sessions guest_user (handleGenerateInsightClick guest_user insight_ok talked_world) = [] \<and>
   length (get_insights guest_user (handleGenerateInsightClick guest_user insight_ok talked_world)) = 1"
proof -
  have h: "user guest_user = None" "isGuest guest_user"
    by (simp_all add: guest_user_def)
  have m: "length (messages talked_world) > 1"
    by (simp add: talked_world_def)
  have old: "sessionStorage talked_world ''komorebi-chat-sessions'' = None"
    "get_insights guest_user talked_world = []"
    by (simp_all add: get_insights_def storage_get_def talked_world_def fresh_world_def)
  have s: "get_sessions guest_user (handleGenerateInsightClick guest_user insight_ok talked_world) = []"
    using h old guest_insight_archives_nothing[of guest_user 4000 "''4000''" "Some ''4000''"
        talked_world insight_ok]
    by (simp add: get_sessions_def storage_get_def)
  have i: "length (get_insights guest_user
      (handleGenerateInsightClick guest_user insight_ok talked_world)) = 1"
    using h old insight_outcome_guest
      guest_insight_archives_nothing[of guest_user 4000 "''4000''" "Some ''4000''"
        talked_world insight_ok]
    by auto
  have a: "archiveCurrentSession guest_user 4000 ''4000'' (Some ''4000'') talked_world = talked_world"
    using h guest_insight_archives_nothing[of guest_user 4000 "''4000''" "Some ''4000''"
        talked_world insight_ok]
    by simp
  show ?thesis using h m s i a insight_outcome_guest by simp
qed

section \<open>Doubles\<close>

lemma bit_length_bounds: "0 < n \<Longrightarrow> 2 ^ (bit_length n - 1) \<le> n \<and> n < 2 ^ bit_length n"
proof (induction n rule: bit_length.induct)
  case (1 n)
  show ?case
  proof (cases "n div 2 = 0")
    case True
    then have n: "n = Suc 0" using "1.prems" by linarith
    have "bit_length (Suc 0) = Suc 0"
      by (simp add: bit_length.simps[of "Suc 0"] bit_length.simps[of 0])
    then show ?thesis using n by simp
  next
    case False
    then have ih: "2 ^ (bit_length (n div 2) - 1) \<le> n div 2" "n div 2 < 2 ^ bit_length (n div 2)"
      using "1.IH" "1.prems" by auto
    have b: "bit_length n = Suc (bit_length (n div 2))"
      using "1.prems" by (subst bit_length.simps) simp
    have pos: "0 < bit_length (n div 2)"
      using False by (subst bit_length.simps) simp
    have "(2::nat) ^ bit_length (n div 2) = 2 * 2 ^ (bit_length (n div 2) - 1)"
      using pos by (cases "bit_length (n div 2)") simp_all
    then have lo: "2 ^ bit_length (n div 2) \<le> n" using ih(1) by linarith
    have hi: "n < 2 * 2 ^ bit_length (n div 2)" using ih(2) by linarith
    show ?thesis using lo hi by (simp add: b)
  qed
qed

lemma floor_double_value: "floor_double d = \<lfloor>value_of d\<rfloor>"
proof (cases "0 \<le> expo d")
  case True
  then have "value_of d = real (mant d * 2 ^ nat (expo d))"
    by (simp add: value_of_def power_int_nonneg_exp)
  then show ?thesis using True by (simp add: floor_double_def del: of_nat_mult of_nat_power)
next
  case False
  then have "2 powi expo d = 1 / (2::real) ^ nat (- expo d)"
    by (simp add: power_int_def field_simps)
  then have "value_of d = real (mant d) / real (2 ^ nat (- expo d))"
    by (simp add: value_of_def)
  then show ?thesis using False
    by (simp add: floor_double_def floor_divide_of_nat_eq del: of_nat_power)
qed

lemma round_half_even_near:
  "\<bar>real (round_half_even m s) - real m / 2 ^ s\<bar> \<le> 1 / 2"
proof -
  define q where "q = m div 2 ^ s"
  define t where "t = m mod 2 ^ s"
  have "m = q * 2 ^ s + t"
    unfolding q_def t_def using div_mult_mod_eq[of m "2 ^ s"] by linarith
  then have "real m = real (q * 2 ^ s + t)" by simp
  then have m: "real m = real q * 2 ^ s + real t" by simp
  have d: "real m / 2 ^ s = real q + real t / 2 ^ s"
    unfolding m by (simp add: field_simps)
  have "t < 2 ^ s" unfolding t_def by simp
  then have "real t < real (2 ^ s)" by (simp only: of_nat_less_iff)
  then have t1: "real t / 2 ^ s < 1" by simp
  consider "2 * t < 2 ^ s" | "2 * t > 2 ^ s" | "2 * t = 2 ^ s" by linarith
  then show ?thesis
  proof cases
    case 1
    then have r: "round_half_even m s = q"
      by (simp add: round_half_even_def q_def t_def Let_def)
    have "real (2 * t) < real (2 ^ s)" using 1 by (simp only: of_nat_less_iff)
    then have "real t / 2 ^ s < 1 / 2" by (simp add: field_simps)
    then show ?thesis unfolding r d by simp
  next
    case 2
    then have r: "round_half_even m s = q + 1"
      by (simp add: round_half_even_def q_def t_def Let_def)
    have "real (2 * t) > real (2 ^ s)" using 2 by (simp only: of_nat_less_iff)
    then have "real t / 2 ^ s > 1 / 2" by (simp add: field_simps)
    then show ?thesis unfolding r d using t1 by simp
  next
    case 3
    then have r: "round_half_even m s = q \<or> round_half_even m s = q + 1"
      by (simp add: round_half_even_def q_def t_def Let_def)
    have "real (2 * t) = real (2 ^ s)" using 3 by (simp only:)
    then have "real t / 2 ^ s = 1 / 2" by (simp add: field_simps)
    then show ?thesis using r d by auto
  qed
qed

lemma bit_length_eqI:
  assumes "2 ^ (k - 1) \<le> n" and "n < 2 ^ k" and "0 < k"
  shows "bit_length n = k"
proof -
  have n: "0 < n" using assms(1) by (metis less_le_trans zero_less_numeral zero_less_power)
  note b = bit_length_bounds[OF n]
  have "\<not> bit_length n < k"
  proof
    assume "bit_length n < k"
    then have "bit_length n \<le> k - 1" by simp
    then have "(2::nat) ^ bit_length n \<le> 2 ^ (k - 1)" by (simp add: power_increasing)
    then show False using b assms(1) by linarith
  qed
  moreover have "\<not> k < bit_length n"
  proof
    assume "k < bit_length n"
    then have "k \<le> bit_length n - 1" by simp
    then have "(2::nat) ^ k \<le> 2 ^ (bit_length n - 1)" by (simp add: power_increasing)
    then show False using b assms(2) by linarith
  qed
  ultimately show ?thesis by simp
qed

lemma value_of_nonneg: "0 \<le> value_of d"
  by (simp add: value_of_def)

lemma round_half_even_exact: "round_half_even m 0 = m"
  by (simp add: round_half_even_def)

lemma times_length_error:
  "\<bar>value_of (times_length d n) - value_of d * real n\<bar> \<le> value_of d * real n / 2 ^ 53"
proof -
  define m where "m = mant d * n"
  define s where "s = bit_length m - 53"
  define p where "p = (2::real) powi expo d"
  have p: "0 < p" unfolding p_def by simp
  have x: "value_of d * real n = real m * p"
    by (simp add: value_of_def m_def p_def)
  have "(2::real) powi (expo d + int s) = p * 2 ^ s"
    unfolding p_def by (simp add: power_int_add)
  then have v: "value_of (times_length d n) = real (round_half_even m s) * 2 ^ s * p"
    by (simp add: value_of_def times_length_def m_def s_def Let_def)
  show ?thesis
  proof (cases "s = 0")
    case True
    then show ?thesis using p by (simp add: v x round_half_even_exact)
  next
    case False
    then have b: "bit_length m = 53 + s" by (simp add: s_def)
    then have "0 < m" by (cases "m = 0") (simp_all add: bit_length.simps[of 0])
    then have "2 ^ (bit_length m - 1) \<le> m" using bit_length_bounds by blast
    then have "2 ^ (52 + s) \<le> m" by (simp add: b)
    then have "real (2 ^ (52 + s)) \<le> real m" by (simp only: of_nat_le_iff)
    then have lo: "2 ^ 52 * 2 ^ s \<le> real m" by (simp add: power_add)
    have "\<bar>real (round_half_even m s) - real m / 2 ^ s\<bar> * 2 ^ s \<le> 1 / 2 * 2 ^ s"
      by (intro mult_right_mono round_half_even_near) simp
    moreover have "\<bar>real (round_half_even m s) - real m / 2 ^ s\<bar> * 2 ^ s =
        \<bar>real (round_half_even m s) * 2 ^ s - real m\<bar>"
    proof -
      have "\<bar>real (round_half_even m s) - real m / 2 ^ s\<bar> * 2 ^ s =
          \<bar>(real (round_half_even m s) - real m / 2 ^ s) * 2 ^ s\<bar>"
        by (simp add: abs_mult)
      also have "(real (round_half_even m s) - real m / 2 ^ s) * 2 ^ s =
          real (round_half_even m s) * 2 ^ s - real m"
        by (simp add: field_simps)
      finally show ?thesis .
    qed
    ultimately have e: "\<bar>real (round_half_even m s) * 2 ^ s - real m\<bar> \<le> 2 ^ s / 2"
      by simp
    have "2 ^ s / 2 \<le> real m / 2 ^ 53" using lo by (simp add: field_simps)
    then have "\<bar>real (round_half_even m s) * 2 ^ s - real m\<bar> \<le> real m / 2 ^ 53"
      using e by linarith
    then have "\<bar>real (round_half_even m s) * 2 ^ s - real m\<bar> * p \<le> real m / 2 ^ 53 * p"
      using p by (intro mult_right_mono) simp_all
    moreover have "\<bar>real (round_half_even m s) * 2 ^ s - real m\<bar> * p =
        \<bar>real (round_half_even m s) * 2 ^ s * p - real m * p\<bar>"
    proof -
      have "\<bar>real (round_half_even m s) * 2 ^ s - real m\<bar> * p =
          \<bar>(real (round_half_even m s) * 2 ^ s - real m) * p\<bar>"
        using p by (simp add: abs_mult)
      then show ?thesis by (simp add: algebra_simps)
    qed
    ultimately show ?thesis by (simp add: v x)
  qed
qed

lemma unit_double_max:
  assumes "unit_double d"
  shows "value_of d \<le> 1 - 1 / 2 ^ 53"
proof (cases "mant d = 0")
  case True
  then show ?thesis by (simp add: value_of_def)
next
  case False
  define k where "k = nat (- expo d)"
  have e: "expo d < 0" and m: "mant d < 2 ^ k" and m53: "mant d < 2 ^ 53"
    using assms False by (simp_all add: unit_double_def k_def)
  have "(2::real) powi expo d = 1 / 2 ^ k"
    using e by (simp add: power_int_def k_def field_simps)
  then have v: "value_of d = real (mant d) / 2 ^ k"
    by (simp add: value_of_def)
  show ?thesis
  proof (cases "k \<le> 53")
    case True
    have "mant d + 1 \<le> 2 ^ k" using m by simp
    then have "real (mant d + 1) \<le> real (2 ^ k)" by (simp only: of_nat_le_iff)
    then have "real (mant d) \<le> 2 ^ k - 1" by simp
    then have "real (mant d) / 2 ^ k \<le> (2 ^ k - 1) / 2 ^ k"
      by (simp add: divide_right_mono)
    also have "\<dots> = 1 - 1 / 2 ^ k" by (simp add: field_simps)
    also have "\<dots> \<le> 1 - 1 / 2 ^ 53"
    proof -
      have "(2::real) ^ k \<le> 2 ^ 53" using True by (intro power_increasing) simp_all
      then have "1 / (2::real) ^ 53 \<le> 1 / 2 ^ k" by (intro divide_left_mono) simp_all
      then show ?thesis by simp
    qed
    finally show ?thesis by (simp add: v)
  next
    case False
    then have "54 \<le> k" by simp
    then have "(2::real) ^ 54 \<le> 2 ^ k" by (intro power_increasing) simp_all
    moreover have "real (mant d) < real (2 ^ 53)" using m53 by (simp only: of_nat_less_iff)
    ultimately have "real (mant d) / 2 ^ k \<le> 2 ^ 53 / 2 ^ 54"
      by (intro frac_le) simp_all
    moreover have "(2::real) ^ 53 / 2 ^ 54 = 1 / 2" by simp
    moreover have "(1::real) / 2 \<le> 1 - 1 / 2 ^ 53" by simp
    ultimately have "real (mant d) / 2 ^ k \<le> 1 - 1 / 2 ^ 53" by linarith
    then show ?thesis by (simp only: v)
  qed
qed

lemma floor_times_length_range:
  assumes "unit_double d" and "0 < n"
  shows "0 \<le> floor_double (times_length d n)" and "floor_double (times_length d n) < int n"
proof -
  let ?x = "value_of d * real n"
  let ?v = "value_of (times_length d n)"
  have x0: "0 \<le> ?x" by (simp add: value_of_nonneg)
  have "?v \<le> ?x + ?x / 2 ^ 53" using times_length_error[of d n] by linarith
  moreover have "?x \<le> (1 - 1 / 2 ^ 53) * real n"
    by (rule mult_right_mono[OF unit_double_max[OF assms(1)]]) simp
  ultimately have "?v \<le> (1 - 1 / 2 ^ 53) * real n * (1 + 1 / 2 ^ 53)"
  proof -
    assume a: "?v \<le> ?x + ?x / 2 ^ 53" and b: "?x \<le> (1 - 1 / 2 ^ 53) * real n"
    have "?x + ?x / 2 ^ 53 = ?x * (1 + 1 / 2 ^ 53)" by (simp add: algebra_simps)
    also have "\<dots> \<le> (1 - 1 / 2 ^ 53) * real n * (1 + 1 / 2 ^ 53)"
      by (rule mult_right_mono[OF b]) simp
    finally show ?thesis using a by linarith
  qed
  also have "(1 - 1 / 2 ^ 53) * real n * (1 + 1 / 2 ^ 53) = real n * (1 - 1 / 2 ^ 106)"
    by (simp add: algebra_simps)
  also have "\<dots> < real n" using assms(2) by simp
  finally have "?v < real n" .
  then show "floor_double (times_length d n) < int n"
    by (simp add: floor_double_value floor_less_iff)
  show "0 \<le> floor_double (times_length d n)"
    by (simp add: floor_double_value value_of_nonneg)
qed

lemma floor_times_length_interval:
  assumes "real k \<le> value_of d * real n * (1 - 1 / 2 ^ 53)"
    and "value_of d * real n * (1 + 1 / 2 ^ 53) < real k + 1"
  shows "floor_double (times_length d n) = int k"
proof -
  let ?x = "value_of d * real n"
  let ?v = "value_of (times_length d n)"
  have e: "\<bar>?v - ?x\<bar> \<le> ?x / 2 ^ 53" by (rule times_length_error)
  have "?x * (1 - 1 / 2 ^ 53) = ?x - ?x / 2 ^ 53" "?x * (1 + 1 / 2 ^ 53) = ?x + ?x / 2 ^ 53"
    by (simp_all add: algebra_simps)
  then have "real k \<le> ?v" "?v < real k + 1" using e assms by linarith+
  then have "\<lfloor>?v\<rfloor> = int k" by (intro floor_unique) simp_all
  then show ?thesis by (simp add: floor_double_value)
qed

lemma pick_in_range:
  assumes "xs \<noteq> []" and "unit_double rnd"
  shows "\<exists>q \<in> set xs. pick rnd xs = Some q"
proof -
  have n: "0 < length xs" using assms(1) by simp
  note r = floor_times_length_range[OF assms(2) n]
  have "nat (floor_double (times_length rnd (length xs))) < length xs" using r by linarith
  then show ?thesis using r(1) by (simp add: pick_def Let_def)
qed

lemma pick_interval:
  assumes "k < length xs"
    and "real k \<le> value_of rnd * real (length xs) * (1 - 1 / 2 ^ 53)"
    and "value_of rnd * real (length xs) * (1 + 1 / 2 ^ 53) < real k + 1"
  shows "pick rnd xs = Some (xs ! k)"
  using assms(1) floor_times_length_interval[OF assms(2,3)]
  by (simp add: pick_def Let_def)

section \<open>The local insight generator\<close>

lemma str_includes_iff: "str_includes s k \<longleftrightarrow> (\<exists>p q. s = p @ k @ q)"
proof
  assume "str_includes s k"
  then show "\<exists>p q. s = p @ k @ q"
  proof (induction s)
    case Nil
    then show ?case by simp
  next
    case (Cons c cs)
    show ?case
    proof (cases "take (length k) (c # cs) = k")
      case True
      then have "c # cs = [] @ k @ drop (length k) (c # cs)"
        by (metis append_Nil append_take_drop_id)
      then show ?thesis by blast
    next
      case False
      then have "str_includes cs k" using Cons.prems by simp
      then obtain p q where "cs = p @ k @ q" using Cons.IH by blast
      then have "c # cs = (c # p) @ k @ q" by simp
      then show ?thesis by blast
    qed
  qed
next
  assume "\<exists>p q. s = p @ k @ q"
  then obtain p q where s: "s = p @ k @ q" by blast
  show "str_includes s k" unfolding s
  proof (induction p)
    case Nil
    show ?case
    proof (cases "k @ q")
      case Nil
      then show ?thesis by simp
    next
      case (Cons a l)
      have "take (length k) (k @ q) = k" by simp
      then show ?thesis by (simp add: Cons)
    qed
  next
    case (Cons a p)
    then show ?case by simp
  qed
qed

lemma simulate_refines:
  "simulateInsightGeneration lower rnd ms ty =
     pick rnd (spec_pool (spec_category (spec_conversation_text lower ms)) ty)"
  by (cases ty)
    (simp_all add: simulateInsightGeneration_def spec_category_def spec_matches_def
      spec_keywords_def spec_conversation_text_def Let_def)

lemma spec_pool_nonempty: "spec_pool c ty \<noteq> []"
  by (cases c; cases ty) simp_all

lemma generate_offline_quote:
  assumes "insight_response e = Inl err" and "capture w e (capture_first e) = Inr still"
  shows "map_option ic_quote (insightCard (snd (generateInsightCard r e ms w))) =
     Some (simulateInsightGeneration (toLowerCase e) (random e) ms (sessionType r))"
proof -
  have "capture (w\<lparr>effects := effects w @ [InsightRequest ms (sessionType r)]\<rparr>) e (capture_first e) =
      Inr still"
    using assms(2) by (simp add: capture_def)
  then show ?thesis
    using assms(1) by (simp add: generateInsightCard_def Let_def publish_insight_card)
qed

text \<open>
  Claim C7.  The local generator computes what the spec's decision table says: the
  quote is picked from the pool of the first matching category (stress, then positive
  affect, then work, else general) of the lower-cased, space-joined contents of the
  user-authored messages, and of the session type; a keyword matches when it occurs in
  that text.  The generator is a function of the lower-casing, the random number, the
  messages and the session type, with no exceptional outcome.  For every double that
  \<^verbatim>\<open>Math.random()\<close> may return it returns a quote of that pool: the rounded product
  never reaches the pool's length.  The \<open>j\<close>-th of the pool's \<open>n\<close> quotes is the one
  returned for every random number \<open>x\<close> with \<open>j \<le> x * n * (1 - 1 / 2 ^ 53)\<close> and
  \<open>x * n * (1 + 1 / 2 ^ 53) < j + 1\<close>, so each quote on an interval of the same length, up
  to the rounding of the product.  When the remote insight service fails and the frame
  capture does not throw, the card's quote is the local generator's.
\<close>

theorem local_fallback_policy:
  "simulateInsightGeneration lower rnd ms ty =
     pick rnd (spec_pool (spec_category (spec_conversation_text lower ms)) ty) \<and>
   (str_includes s k \<longleftrightarrow> (\<exists>p q. s = p @ k @ q)) \<and>
   (unit_double rnd \<longrightarrow>
      (\<exists>q \<in> set (spec_pool (spec_category (spec_conversation_text lower ms)) ty).
         simulateInsightGeneration lower rnd ms ty = Some q)) \<and>
   (j < length (spec_pool (spec_category (spec_conversation_text lower ms)) ty) \<and>
    real j \<le> value_of rnd *
      real (length (spec_pool (spec_category (spec_conversation_text lower ms)) ty)) *
      (1 - 1 / 2 ^ 53) \<and>
    value_of rnd *
      real (length (spec_pool (spec_category (spec_conversation_text lower ms)) ty)) *
      (1 + 1 / 2 ^ 53) < real j + 1
      \<longrightarrow> simulateInsightGeneration lower rnd ms ty =
            Some (spec_pool (spec_category (spec_conversation_text lower ms)) ty ! j)) \<and>
   (insight_response e = Inl err \<and> capture w e (capture_first e) = Inr still \<longrightarrow>
      map_option ic_quote (insightCard (snd (generateInsightCard r e ms w))) =
        Some (simulateInsightGeneration (toLowerCase e) (random e) ms (sessionType r)))"
  using pick_in_range[OF spec_pool_nonempty, of rnd "spec_category (spec_conversation_text lower ms)" ty]
    pick_interval[of j "spec_pool (spec_category (spec_conversation_text lower ms)) ty" rnd]
    generate_offline_quote[of e err w still r ms] str_includes_iff[of s k]
  by (simp add: simulate_refines)

lemma stressed_text:
  "spec_conversation_text ascii_lower stressed_messages = ''my work is piling up i feel stressed''"
  by code_simp

lemma stressed_matches:
  "str_includes ''my work is piling up i feel stressed'' ''stress''"
  "str_includes ''my work is piling up i feel stressed'' ''work''"
  by code_simp+

lemma stressed_category:
  "spec_category (spec_conversation_text ascii_lower stressed_messages) = Stress"
  by code_simp

lemma silent_category: "spec_category (spec_conversation_text ascii_lower []) = General"
  by code_simp

lemma value_of_half: "value_of half = 1 / 2"
  by (simp add: value_of_def half_def power_int_minus)

lemma unit_double_examples: "unit_double half" "unit_double six_tenths" "unit_double one_third"
  by (simp_all add: unit_double_def half_def six_tenths_def one_third_def)

lemma six_tenths_times_5:
  "times_length six_tenths 5 = \<lparr>mant = 6755399441055744, expo = - 51\<rparr>"
proof -
  have b: "bit_length 27021597764222975 = 55"
    by (rule bit_length_eqI) simp_all
  have r: "round_half_even 27021597764222975 2 = 6755399441055744"
    by (simp add: round_half_even_def Let_def)
  show ?thesis
    by (simp add: times_length_def six_tenths_def b r Let_def)
qed

lemma one_third_times_3:
  "times_length one_third 3 = \<lparr>mant = 9007199254740992, expo = - 53\<rparr>"
proof -
  have b: "bit_length 18014398509481983 = 54"
    by (rule bit_length_eqI) simp_all
  have r: "round_half_even 18014398509481983 (Suc 0) = 9007199254740992"
    unfolding round_half_even_def Let_def by simp
  show ?thesis
    by (simp add: times_length_def one_third_def b r Let_def)
qed

lemma pick_six_tenths: "pick six_tenths [a, b, c, d, e] = Some d"
proof -
  have l: "length [a, b, c, d, e] = 5" by simp
  have f: "floor_double \<lparr>mant = 6755399441055744, expo = - 51\<rparr> = 3"
    by (simp add: floor_double_def)
  show ?thesis unfolding pick_def l six_tenths_times_5 f by simp
qed

lemma pick_one_third: "pick one_third [a, b, c] = Some b"
proof -
  have l: "length [a, b, c] = 3" by simp
  have f: "floor_double \<lparr>mant = 9007199254740992, expo = - 53\<rparr> = 1"
    by (simp add: floor_double_def)
  show ?thesis unfolding pick_def l one_third_times_3 f by simp
qed

theorem local_fallback_policy_witness:
  "spec_conversation_text ascii_lower stressed_messages = ''my work is piling up i feel stressed'' \<and>
   str_includes ''my work is piling up i feel stressed'' ''stress'' \<and>
   str_includes ''my work is piling up i feel stressed'' ''work'' \<and>
   spec_category (spec_conversation_text ascii_lower stressed_messages) = Stress \<and>
   unit_double half \<and> value_of half = 1 / 2 \<and>
   real 1 \<le> value_of half * real 3 * (1 - 1 / 2 ^ 53) \<and>
   value_of half * real 3 * (1 + 1 / 2 ^ 53) < real 1 + 1 \<and>
   simulateInsightGeneration ascii_lower half stressed_messages Morning =
     Some ''Even in challenging moments, you have the strength to find your center.'' \<and>
   unit_double six_tenths \<and>
   simulateInsightGeneration ascii_lower six_tenths [] Morning =
     Some ''You have everything within you to make today beautiful.'' \<and>
   unit_double one_third \<and>
   simulateInsightGeneration ascii_lower one_third stressed_messages Evening =
     Some ''Stress reveals our capacity for growth and adaptation.'' \<and>
   insight_response insight_offline = Inl (Error ''network'') \<and>
   map_option ic_quote (insightCard (snd
       (generateInsightCard free_user insight_offline stressed_messages talked_world))) =
     Some (Some ''Even in challenging moments, you have the strength to find your center.'')"
proof -
  have h: "real 1 \<le> value_of half * real 3 * (1 - 1 / 2 ^ 53)"
    "value_of half * real 3 * (1 + 1 / 2 ^ 53) < real 1 + 1"
    by (simp_all add: value_of_half)
  have a: "simulateInsightGeneration ascii_lower half stressed_messages Morning =
     Some ''Even in challenging moments, you have the strength to find your center.''"
  proof -
    let ?pool = "spec_pool (spec_category (spec_conversation_text ascii_lower stressed_messages))
        Morning"
    have len: "length ?pool = 3"
      by (simp add: stressed_category)
    have lt: "1 < length ?pool"
      unfolding len by simp
    have lo: "real 1 \<le> value_of half * real (length ?pool) * (1 - 1 / 2 ^ 53)"
      unfolding len by (rule h(1))
    have hi: "value_of half * real (length ?pool) * (1 + 1 / 2 ^ 53) < real 1 + 1"
      unfolding len by (rule h(2))
    have "simulateInsightGeneration ascii_lower half stressed_messages Morning = Some (?pool ! 1)"
      using lt lo hi local_fallback_policy[of ascii_lower half stressed_messages Morning "[]" "[]" 1
          insight_offline "Error ''network''" talked_world "Some ''data:image/png;base64,AAAA''"
          free_user]
      by blast
    then show ?thesis by (simp add: stressed_category)
  qed
  have b: "simulateInsightGeneration ascii_lower six_tenths [] Morning =
     Some ''You have everything within you to make today beautiful.''"
  proof -
    have "simulateInsightGeneration ascii_lower six_tenths [] Morning =
        pick six_tenths (spec_pool (spec_category (spec_conversation_text ascii_lower [])) Morning)"
      using local_fallback_policy[of ascii_lower six_tenths "[]" Morning "[]" "[]" 1
          insight_offline "Error ''network''" talked_world "Some ''data:image/png;base64,AAAA''"
          free_user]
      by blast
    then show ?thesis by (simp add: silent_category pick_six_tenths)
  qed
  have c: "simulateInsightGeneration ascii_lower one_third stressed_messages Evening =
     Some ''Stress reveals our capacity for growth and adaptation.''"
  proof -
    have "simulateInsightGeneration ascii_lower one_third stressed_messages Evening =
        pick one_third
          (spec_pool (spec_category (spec_conversation_text ascii_lower stressed_messages)) Evening)"
      using local_fallback_policy[of ascii_lower one_third stressed_messages Evening "[]" "[]" 1
          insight_offline "Error ''network''" talked_world "Some ''data:image/png;base64,AAAA''"
          free_user]
      by blast
    then show ?thesis by (simp add: stressed_category pick_one_third)
  qed
  have e: "insight_response insight_offline = Inl (Error ''network'')"
    "capture talked_world insight_offline (capture_first insight_offline) =
       Inr (Some ''data:image/png;base64,AAAA'')"
    "random insight_offline = half" "toLowerCase insight_offline = ascii_lower"
    "sessionType free_user = Morning"
    by (simp_all add: insight_offline_def insight_ok_def capture_def talked_world_def
        fresh_world_def sessionType_def free_user_def)
  have d: "map_option ic_quote (insightCard (snd
       (generateInsightCard free_user insight_offline stressed_messages talked_world))) =
     Some (Some ''Even in challenging moments, you have the strength to find your center.'')"
  proof -
    have "map_option ic_quote (insightCard (snd
         (generateInsightCard free_user insight_offline stressed_messages talked_world))) =
       Some (simulateInsightGeneration (toLowerCase insight_offline) (random insight_offline)
              stressed_messages (sessionType free_user))"
      using e(1,2) local_fallback_policy[of ascii_lower half stressed_messages Morning "[]" "[]" 1
          insight_offline "Error ''network''" talked_world "Some ''data:image/png;base64,AAAA''"
          free_user]
      by blast
    then show ?thesis by (simp only: e(3) e(4) e(5) a)
  qed
  show ?thesis
    using stressed_text stressed_matches stressed_category unit_double_examples value_of_half
      h a b c d e(1)
    by simp
qed

section \<open>The stored procedure\<close>

lemma update_is_ambiguous:
  "ambiguous chat_sessions_columns [''insight_id'', ''id'', ''session_id''] = Some ''insight_id''"
  by (simp add: ambiguous_def chat_sessions_columns_def function_variables_def)

lemma complete_chat_session_outcomes:
  "complete_chat_session env sid q sc db = Inl (Raised ''Session not found or not authorized'') \<or>
   complete_chat_session env sid q sc db = Inl (AmbiguousColumn ''insight_id'')"
  by (simp add: complete_chat_session_def update_is_ambiguous Let_def ambiguous_def
      chat_sessions_columns_def function_variables_def)

lemma complete_chat_session_authenticated:
  "auth_uid env = Some caller \<Longrightarrow>
   complete_chat_session env sid q sc db =
     (case find (\<lambda>cs. Some (cs_id cs) = sid) (chat_sessions db) of
        None \<Rightarrow> Inl (Raised ''Session not found or not authorized'')
      | Some cs \<Rightarrow>
          if cs_user_id cs = Some caller then Inl (AmbiguousColumn ''insight_id'')
          else Inl (Raised ''Session not found or not authorized''))"
  by (cases "find (\<lambda>cs. Some (cs_id cs) = sid) (chat_sessions db)")
    (auto simp: complete_chat_session_def update_is_ambiguous Let_def ambiguous_def
      chat_sessions_columns_def function_variables_def sql_or_def sql_ne_def sql_is_null_def
      split: option.splits)

text \<open>
  Claim C8 against the code.  The owner's own call does not complete the session: the
  \<^verbatim>\<open>UPDATE\<close> sets \<^verbatim>\<open>insight_id = insight_id\<close>, where the right-hand name is both a column of
  \<^verbatim>\<open>chat_sessions\<close> and a variable of the function, and the statement fails as ambiguous.
  A call for which \<^verbatim>\<open>auth.uid()\<close> is \<^verbatim>\<open>NULL\<close> is not answered with the authorization error
  although the caller does not own the session: \<^verbatim>\<open>user_id != auth.uid()\<close> is \<^verbatim>\<open>NULL\<close>, and
  \<^verbatim>\<open>IF\<close> does not take its branch.  A signed-in caller who is not the owner, and a call
  for a session that does not exist, get the authorization error.
\<close>

theorem complete_chat_session_at_failing_inputs:
  "complete_chat_session as_alice (Some ''s1'') (Some ''Breathe.'') (Some ''ocean'') example_db =
     Inl (AmbiguousColumn ''insight_id'') \<and>
   complete_chat_session as_nobody (Some ''s1'') (Some ''Breathe.'') (Some ''ocean'') example_db \<noteq>
     Inl (Raised ''Session not found or not authorized'') \<and>
   complete_chat_session as_bob (Some ''s1'') (Some ''Breathe.'') (Some ''ocean'') example_db =
     Inl (Raised ''Session not found or not authorized'') \<and>
   complete_chat_session as_alice (Some ''s2'') (Some ''Breathe.'') (Some ''ocean'') example_db =
     Inl (Raised ''Session not found or not authorized'')"
  by (simp add: complete_chat_session_def update_is_ambiguous Let_def ambiguous_def
      chat_sessions_columns_def function_variables_def sql_or_def sql_ne_def sql_is_null_def
      as_alice_def as_bob_def as_nobody_def example_db_def)

end
